theory Spec2Isabelle
  imports Main
begin

section \<open>Billing backend: signed webhooks, usage meter, job queues, subscription state machine\<close>

text \<open>
  Shallow embedding of the payment service and the subscription service.  A Python
  \<open>str\<close> is the list of its code points, of which the model holds those below 256
  (the range of an HTTP header value, which the server decodes as Latin-1, and of the
  ASCII text that \<open>json.dumps\<close> writes); \<open>bytes\<close> are lists of characters too.
  Python integers are \<open>int\<close>, every \<open>raise\<close> is a value of a sum type.  Functions of the Python standard library and
  of third-party packages (HMAC-SHA256, the JSON codec, the builtin \<open>hash\<close>, the clock,
  the random generator, the HTTP transport) enter the model as parameters.
\<close>

subsection \<open>Python helpers\<close>

text \<open>\<open>str(n)\<close> of an integer: decimal digits with a leading minus sign.\<close>

definition digit_char :: "nat \<Rightarrow> char" where
  "digit_char d = char_of (48 + d)"

fun str_nat :: "nat \<Rightarrow> string" where
  "str_nat n = (if n < 10 then [digit_char n] else str_nat (n div 10) @ [digit_char (n mod 10)])"

declare str_nat.simps [simp del]

definition str_int :: "int \<Rightarrow> string" where
  "str_int i = (if i < 0 then CHR ''-'' # str_nat (nat (- i)) else str_nat (nat i))"

text \<open>
  \<open>int(s)\<close> of a string: surrounding white space is stripped, one sign is allowed, the
  rest is a run of decimal digits in which single underscores may separate digits, and
  holds at most 4300 digits (\<open>sys.int\_info.default\_max\_str\_digits\<close>; leading zeros
  count, the sign and the underscores do not).  \<open>None\<close> stands for \<open>ValueError\<close>.
  Below code point 256 the white space that \<open>int\<close> strips is the ASCII white space
  (9 to 13 and 32) and the code points 133 and 160, which it first turns into blanks;
  the separators 28 to 31, which \<open>str.strip\<close> removes, stay in the text that \<open>int\<close>
  parses and make it raise.
\<close>

definition digit_of :: "char \<Rightarrow> nat option" where
  "digit_of c = (let k = (of_char c :: nat) in if 48 \<le> k \<and> k \<le> 57 then Some (k - 48) else None)"

fun parse_digits :: "string \<Rightarrow> nat \<Rightarrow> nat option" where
  "parse_digits [] acc = Some acc"
| "parse_digits (c # cs) acc =
     (if c = CHR ''_'' then
        (case cs of
           [] \<Rightarrow> None
         | d # ds \<Rightarrow> (case digit_of d of None \<Rightarrow> None | Some v \<Rightarrow> parse_digits ds (10 * acc + v)))
      else (case digit_of c of None \<Rightarrow> None | Some v \<Rightarrow> parse_digits cs (10 * acc + v)))"

definition parse_nat :: "string \<Rightarrow> nat option" where
  "parse_nat s = (case s of [] \<Rightarrow> None
                  | c # cs \<Rightarrow> (case digit_of c of None \<Rightarrow> None | Some v \<Rightarrow> parse_digits cs v))"

definition is_space :: "char \<Rightarrow> bool" where
  "is_space c = (let k = (of_char c :: nat)
                 in k = 32 \<or> (9 \<le> k \<and> k \<le> 13) \<or> k = 133 \<or> k = 160)"

definition py_strip :: "string \<Rightarrow> string" where
  "py_strip s = rev (dropWhile is_space (rev (dropWhile is_space s)))"

definition max_str_digits :: nat where
  "max_str_digits = 4300"

definition count_digits :: "string \<Rightarrow> nat" where
  "count_digits s = length (filter (\<lambda>c. digit_of c \<noteq> None) s)"

definition py_int :: "string \<Rightarrow> int option" where
  "py_int s =
     (let t = py_strip s
      in if max_str_digits < count_digits t then None
         else
           (case t of
              [] \<Rightarrow> None
            | c # cs \<Rightarrow>
                if c = CHR ''-'' then map_option (\<lambda>n. - int n) (parse_nat cs)
                else if c = CHR ''+'' then map_option int (parse_nat cs)
                else map_option int (parse_nat (c # cs))))"

text \<open>
  \<open>s.encode('utf-8')\<close> of a string of code points below 256: a code point below 128
  is one byte, any other is two bytes.
\<close>

definition utf8_char :: "char \<Rightarrow> string" where
  "utf8_char c =
     (let k = (of_char c :: nat)
      in if k < 128 then [c] else [char_of (192 + k div 64), char_of (128 + k mod 64)])"

definition utf8_encode :: "string \<Rightarrow> string" where
  "utf8_encode s = concat (map utf8_char s)"

text \<open>The exceptions that the modelled code raises.\<close>

datatype py_exception = AttributeError | RuntimeError string | IntegrityError | ConnectionError
  | TypeError | ValueError | OverflowError

subsection \<open>HMAC signer and verifier (payment-service/app/core/webhook\_security.py)\<close>

text \<open>
  \<open>hmac.new(key, msg, hashlib.sha256)\<close> is the parameter \<open>H\<close>: it maps the key bytes
  and the message bytes to the digest bytes.  \<open>hexdigest\<close> renders every byte as two
  lowercase hexadecimal digits.
\<close>

type_synonym bytes = string

type_synonym hmac_fn = "bytes \<Rightarrow> bytes \<Rightarrow> bytes"

definition hex_digit :: "nat \<Rightarrow> char" where
  "hex_digit d = (if d < 10 then char_of (48 + d) else char_of (87 + d))"

definition hex_byte :: "char \<Rightarrow> string" where
  "hex_byte b = [hex_digit (of_char b div 16), hex_digit (of_char b mod 16)]"

definition hexdigest :: "bytes \<Rightarrow> string" where
  "hexdigest bs = concat (map hex_byte bs)"

definition generate_signature :: "hmac_fn \<Rightarrow> string \<Rightarrow> string \<Rightarrow> string \<Rightarrow> string" where
  "generate_signature H payload timestamp secret =
     (let signed_payload = timestamp @ ''.'' @ payload;
          signature = hexdigest (H (utf8_encode secret) (utf8_encode signed_payload))
      in ''sha256='' @ signature)"

text \<open>\<open>HTTPException(status_code, detail)\<close>.\<close>

datatype http_exception = HTTPException nat string

text \<open>
  \<open>hmac.compare\_digest\<close> on two \<open>str\<close> arguments raises \<open>TypeError\<close> unless both are
  ASCII; otherwise it is equality (in constant time).
\<close>

definition is_ascii :: "string \<Rightarrow> bool" where
  "is_ascii s = list_all (\<lambda>c. (of_char c :: nat) < 128) s"

definition compare_digest :: "string \<Rightarrow> string \<Rightarrow> bool option" where
  "compare_digest a b = (if is_ascii a \<and> is_ascii b then Some (a = b) else None)"

text \<open>
  \<open>verify\_signature\<close>; \<open>now\<close> is \<open>int(time.time())\<close>.  An exception that is not an
  \<open>HTTPException\<close> is turned into status 500 by the outer handler.
\<close>

definition verify_signature ::
  "hmac_fn \<Rightarrow> int \<Rightarrow> string \<Rightarrow> string \<Rightarrow> string \<Rightarrow> string \<Rightarrow> int \<Rightarrow> http_exception + bool" where
  "verify_signature H now payload signature_header timestamp_header secret tolerance_seconds =
     (case py_int timestamp_header of
        None \<Rightarrow> Inl (HTTPException 400 ''Invalid timestamp format'')
      | Some webhook_timestamp \<Rightarrow>
          let current_timestamp = now;
              age_seconds = current_timestamp - webhook_timestamp
          in if age_seconds > tolerance_seconds then
               Inl (HTTPException 400 ''Webhook timestamp too old'')
             else if age_seconds < - tolerance_seconds then
               Inl (HTTPException 400 ''Webhook timestamp too far in future'')
             else
               let expected_signature = generate_signature H payload timestamp_header secret
               in (case compare_digest signature_header expected_signature of
                     None \<Rightarrow> Inl (HTTPException 500 ''Signature verification failed'')
                   | Some eq \<Rightarrow>
                       if \<not> eq then Inl (HTTPException 401 ''Invalid webhook signature'')
                       else Inr True))"

text \<open>The default of the parameter \<open>tolerance\_seconds\<close>.\<close>

definition default_tolerance :: int where
  "default_tolerance = 300"

subsection \<open>Usage meter (subscription-service/app/core/redis\_client.py, services/usage\_service.py)\<close>

text \<open>
  Numbers in the Lua script are IEEE doubles.  The numbers that this script meets are
  the doubles with an integer value, the two infinities and NaN: its arguments are the
  decimal texts of Python integers, which \<open>tonumber\<close> rounds to the nearest double, and
  its only arithmetic is one addition.  \<open>round\_nat n\<close> is the double nearest to a
  natural number \<open>n\<close>: above \<open>2 ^ 53\<close> the bits below the 53 leading ones are dropped,
  and a tie goes to the even neighbour.  A result of \<open>2 ^ 1024\<close> or more is infinite.
\<close>

datatype lua_number = Num int | PosInf | NegInf | NaN

fun exponent_of :: "nat \<Rightarrow> nat" where
  "exponent_of n = (if n < 2 ^ 53 then 0 else Suc (exponent_of (n div 2)))"

declare exponent_of.simps [simp del]

definition round_nat :: "nat \<Rightarrow> nat" where
  "round_nat n =
     (let e = exponent_of n; q = n div 2 ^ e; r = n mod 2 ^ e
      in if 2 * r < 2 ^ e then q * 2 ^ e
         else if 2 ^ e < 2 * r then (q + 1) * 2 ^ e
         else (if even q then q else q + 1) * 2 ^ e)"

definition to_double :: "int \<Rightarrow> lua_number" where
  "to_double i =
     (if \<bar>i\<bar> \<le> 2 ^ 53 then Num i
      else
        let m = int (round_nat (nat \<bar>i\<bar>))
        in if 2 ^ 1024 \<le> m then (if 0 < i then PosInf else NegInf)
           else Num (if 0 < i then m else - m))"

text \<open>\<open>a + b\<close> and \<open>a < b\<close> on these numbers; Lua reads \<open>a > b\<close> as \<open>b < a\<close>.\<close>

fun lua_add :: "lua_number \<Rightarrow> lua_number \<Rightarrow> lua_number" where
  "lua_add NaN b = NaN"
| "lua_add a NaN = NaN"
| "lua_add (Num a) (Num b) = to_double (a + b)"
| "lua_add PosInf NegInf = NaN"
| "lua_add NegInf PosInf = NaN"
| "lua_add PosInf b = PosInf"
| "lua_add a PosInf = PosInf"
| "lua_add NegInf b = NegInf"
| "lua_add a NegInf = NegInf"

fun lua_lt :: "lua_number \<Rightarrow> lua_number \<Rightarrow> bool" where
  "lua_lt NaN b = False"
| "lua_lt a NaN = False"
| "lua_lt (Num a) (Num b) = (a < b)"
| "lua_lt PosInf b = False"
| "lua_lt a PosInf = True"
| "lua_lt NegInf NegInf = False"
| "lua_lt NegInf b = True"
| "lua_lt a NegInf = False"

text \<open>
  A Lua number in the table that the script returns becomes a Redis integer by the C
  conversion to \<open>long long\<close>; for a value outside 64 bits, an infinity or NaN the
  conversion instruction of x86-64 gives \<open>- 2 ^ 63\<close>.
\<close>

definition reply_integer :: "lua_number \<Rightarrow> int" where
  "reply_integer x =
     (case x of
        Num i \<Rightarrow> if - (2 ^ 63) \<le> i \<and> i < 2 ^ 63 then i else - (2 ^ 63)
      | _ \<Rightarrow> - (2 ^ 63))"

text \<open>
  The Redis hash stored under a usage key: the fields \<open>count\<close> and \<open>reset\_at\<close> (absent
  fields are \<open>None\<close>, which \<open>HMGET\<close> hands to Lua as \<open>false\<close>) and the time to live of the
  key.  The \<open>count\<close> field, which only this script writes, holds the text of a Lua
  number, from which \<open>tonumber\<close> reads that number back; the model keeps the number.
\<close>

record usage_hash =
  count_field :: "lua_number option"
  reset_field :: "string option"
  ttl_field :: "int option"

type_synonym usage_store = "string \<Rightarrow> usage_hash option"

definition hmget_usage :: "usage_store \<Rightarrow> string \<Rightarrow> lua_number option \<times> string option" where
  "hmget_usage store key =
     (case store key of None \<Rightarrow> (None, None) | Some h \<Rightarrow> (count_field h, reset_field h))"

text \<open>Lua compares two strings with \<open><=\<close> byte by byte.\<close>

fun lua_str_le :: "string \<Rightarrow> string \<Rightarrow> bool" where
  "lua_str_le [] bs = True"
| "lua_str_le (a # as) [] = False"
| "lua_str_le (a # as) (b # bs) =
     (if (of_char a :: nat) < of_char b then True
      else if (of_char b :: nat) < of_char a then False
      else lua_str_le as bs)"

text \<open>
  The Lua script, run by one \<open>EVAL\<close>, for the integers \<open>limit\<close> and \<open>delta\<close> whose
  decimal texts are its first two arguments: it maps the store to the reply
  \<open>{flag, count, limit}\<close> and the new store.  In Lua every string, the empty one
  too, is true in a condition.
\<close>

definition usage_script ::
  "usage_store \<Rightarrow> string \<Rightarrow> int \<Rightarrow> int \<Rightarrow> string \<Rightarrow> string \<Rightarrow> (int \<times> int \<times> int) \<times> usage_store" where
  "usage_script store key limit_arg delta_arg reset_at current_time =
     (let limit = to_double limit_arg;
          delta = to_double delta_arg;
          current = hmget_usage store key;
          count = (case fst current of None \<Rightarrow> Num 0 | Some n \<Rightarrow> n);
          stored_reset = snd current;
          count = (case stored_reset of
                     None \<Rightarrow> count
                   | Some r \<Rightarrow> if lua_str_le r current_time then Num 0 else count)
      in if lua_lt limit (lua_add count delta)
         then ((0, reply_integer count, reply_integer limit), store)
         else
           let count = lua_add count delta
           in ((1, reply_integer count, reply_integer limit),
               store(key \<mapsto> \<lparr>count_field = Some count, reset_field = Some reset_at,
                               ttl_field = Some 86400\<rparr>)))"

record usage_result =
  r_success :: bool
  r_current_usage :: int
  r_limit :: int

text \<open>
  \<open>repr\<close> and \<open>str\<close> of an integer raise \<open>ValueError\<close> when the text would have more
  than 4300 digits; the key is built with an f-string, and the client sends \<open>repr\<close> of
  every integer argument.
\<close>

definition repr_int_ok :: "int \<Rightarrow> bool" where
  "repr_int_ok i = (\<bar>i\<bar> < 10 ^ max_str_digits)"

definition usage_key :: "int \<Rightarrow> string \<Rightarrow> string" where
  "usage_key user_id feature_name = ''usage:'' @ str_int user_id @ '':'' @ feature_name"

text \<open>
  \<open>atomic\_usage\_check\<close>: the dictionary it returns or the exception it raises, and the
  store afterwards.  \<open>current\_time\<close> is the text that the client sends for
  \<open>time.time()\<close>, the \<open>repr\<close> of a float.
\<close>

definition atomic_usage_check ::
  "usage_store \<Rightarrow> string \<Rightarrow> int \<Rightarrow> string \<Rightarrow> int \<Rightarrow> int \<Rightarrow> string option \<Rightarrow>
   (py_exception + usage_result) \<times> usage_store" where
  "atomic_usage_check store current_time user_id feature_name limit delta reset_at =
     (if \<not> repr_int_ok user_id \<or> \<not> repr_int_ok limit \<or> \<not> repr_int_ok delta
      then (Inl ValueError, store)
      else
        let key = usage_key user_id feature_name;
            (result, store') =
               usage_script store key limit delta
                 (case reset_at of None \<Rightarrow> [] | Some r \<Rightarrow> r)
                 current_time
        in (Inr \<lparr>r_success = (fst result \<noteq> 0),
                 r_current_usage = fst (snd result),
                 r_limit = snd (snd result)\<rparr>, store'))"

text \<open>
  \<open>UsageService.use\_feature\<close>.  \<open>plan\_limits\<close> is \<open>get\_feature\_limits()\<close> of the plan
  of the user's active subscription (\<open>None\<close> when there is no active subscription),
  with integers for limits; \<open>reset\_epoch\<close> is the epoch second of the first day of the
  next month, and \<open>db\<close> is the \<open>user\_usage\<close> table.  \<open>\_sync\_usage\_to\_db\<close> runs only
  when the increment succeeded and swallows every exception, as the one that a count
  outside the 32 bits of the column raises.
\<close>

record usage_check_response =
  u_success :: bool
  u_current_usage :: int
  u_limit :: int
  u_remaining :: int

type_synonym usage_db = "int \<times> string \<Rightarrow> int option"

definition sync_usage_to_db :: "usage_db \<Rightarrow> int \<Rightarrow> string \<Rightarrow> int \<Rightarrow> usage_db" where
  "sync_usage_to_db db user_id feature_name current_usage =
     (if - (2 ^ 31) \<le> current_usage \<and> current_usage < 2 ^ 31
      then db((user_id, feature_name) \<mapsto> current_usage) else db)"

definition use_feature ::
  "usage_store \<Rightarrow> usage_db \<Rightarrow> string \<Rightarrow> int \<Rightarrow> (string \<Rightarrow> int option) option \<Rightarrow>
   int \<Rightarrow> string \<Rightarrow> int \<Rightarrow> (py_exception + usage_check_response) \<times> usage_store \<times> usage_db" where
  "use_feature store db current_time reset_epoch plan_limits user_id feature_name delta =
     (case plan_limits of
        None \<Rightarrow> (Inl ValueError, store, db)
      | Some feature_limits \<Rightarrow>
          let feature_limit = (case feature_limits feature_name of None \<Rightarrow> 0 | Some l \<Rightarrow> l)
          in if feature_limit \<le> 0 then (Inl ValueError, store, db)
             else
               let reset_at_str = str_int reset_epoch
               in (case atomic_usage_check store current_time user_id feature_name
                          feature_limit delta (Some reset_at_str) of
                     (Inl e, store') \<Rightarrow> (Inl e, store', db)
                   | (Inr result, store') \<Rightarrow>
                       let current_usage = r_current_usage result;
                           limit = r_limit result;
                           success = r_success result;
                           db' = (if success
                                  then sync_usage_to_db db user_id feature_name current_usage
                                  else db)
                       in (Inr \<lparr>u_success = success, u_current_usage = current_usage,
                                u_limit = limit, u_remaining = max 0 (limit - current_usage)\<rparr>,
                           store', db')))"

text \<open>
  The request schema \<open>UsageRequest\<close> (\<open>feature\_name\<close> of at most 50 characters,
  \<open>delta \<ge> 1\<close>) and the endpoint \<open>POST /use\<close>: the status code of an error response,
  or the body of the response 200.  A request that the schema refuses is answered 422.
  The endpoint raises \<open>HTTPException(429)\<close> on a denial inside its own \<open>try\<close>, whose
  clause \<open>except Exception\<close> turns it into status 500; a \<open>ValueError\<close> becomes status
  400.
\<close>

record usage_request =
  q_feature_name :: string
  q_delta :: int

definition usage_request_valid :: "usage_request \<Rightarrow> bool" where
  "usage_request_valid req = (length (q_feature_name req) \<le> 50 \<and> 1 \<le> q_delta req)"

definition use_feature_endpoint ::
  "usage_store \<Rightarrow> usage_db \<Rightarrow> string \<Rightarrow> int \<Rightarrow> (string \<Rightarrow> int option) option \<Rightarrow>
   int \<Rightarrow> usage_request \<Rightarrow> (nat + usage_check_response) \<times> usage_store \<times> usage_db" where
  "use_feature_endpoint store db current_time reset_epoch plan_limits user_id req =
     (if \<not> usage_request_valid req then (Inl 422, store, db)
      else
        (case use_feature store db current_time reset_epoch plan_limits user_id
                (q_feature_name req) (q_delta req) of
           (Inl e, store', db') \<Rightarrow> (if e = ValueError then Inl 400 else Inl 500, store', db')
         | (Inr result, store', db') \<Rightarrow>
             if \<not> u_success result then (Inl 500, store', db')
             else (Inr result, store', db')))"

text \<open>
  The state of a key's \<open>reset\_at\<close> field and the count that the meter works with, in
  the words of the specification: the stored count (0 when absent), replaced by 0 when
  the stored \<open>reset\_at\<close> is non-empty and its epoch is not after \<open>now\<close>.
\<close>

datatype stored_reset = Absent | Empty | Epoch nat









subsection \<open>Subscription state machine and webhook inbox
  (subscription-service/app/services/webhook\_service.py)\<close>

text \<open>
  JSON values as Python holds them after \<open>json.loads\<close>; an object lists every key once.
  Floating-point numbers are not modelled.
\<close>

datatype json = JNull | JBool bool | JInt int | JStr string | JArr "json list"
  | JObj "(string \<times> json) list"

text \<open>
  UUIDs are natural numbers; an amount is a number of minor currency units.  A
  \<open>datetime\<close> is the number of whole seconds since 1970-01-01 on the UTC time line; it
  lies between \<open>datetime.min\<close> (year 1) and \<open>datetime.max\<close> (the last second of year
  9999).
\<close>

type_synonym uuid = nat

definition datetime_min :: int where
  "datetime_min = - 62135596800"

definition datetime_max :: int where
  "datetime_max = 253402300799"

record plan =
  plan_id :: int
  plan_name :: string
  billing_cycle :: string
  features :: json

record subscription =
  s_id :: uuid
  s_user_id :: int
  s_plan_id :: int
  s_status :: string
  s_start_date :: int
  s_end_date :: int
  s_canceled_at :: "int option"

text \<open>Of the metadata bag of a \<open>SubscriptionEvent\<close> only the amount is kept.\<close>

record subscription_event =
  e_subscription_id :: uuid
  e_event_type :: string
  e_transaction_id :: uuid
  e_old_plan_id :: "int option"
  e_new_plan_id :: "int option"
  e_amount :: int

text \<open>
  The payload handed to the service: the dictionary that \<open>serialize\_payload\<close> makes of
  a validated \<open>WebhookPayload\<close>, so every field is present and well typed.
\<close>

record webhook_payload =
  p_event_id :: string
  p_transaction_id :: uuid
  p_subscription_id :: uuid
  p_status :: string
  p_amount :: int

text \<open>A row of \<open>payment\_webhook\_requests\<close>, the webhook inbox.\<close>

record webhook_row =
  w_id :: nat
  w_event_id :: string
  w_payload :: webhook_payload
  w_processed :: bool
  w_processed_at :: "int option"
  w_error_message :: "string option"
  w_retry_count :: nat

record db =
  subscriptions :: "uuid \<Rightarrow> subscription option"
  plans :: "int \<Rightarrow> plan option"
  events :: "subscription_event list"
  inbox :: "webhook_row list"

text \<open>
  A database session: the committed state and the state inside the open transaction.
\<close>

record session =
  committed :: db
  working :: db

definition commit :: "session \<Rightarrow> session" where
  "commit sess = sess\<lparr>committed := working sess\<rparr>"

definition rollback :: "session \<Rightarrow> session" where
  "rollback sess = sess\<lparr>working := committed sess\<rparr>"

text \<open>
  \<open>timedelta(days=d)\<close>, in seconds, and \<open>dt + delta\<close> for a \<open>datetime\<close>: a
  \<open>timedelta\<close> of more than 999999999 days and a sum outside the range of \<open>datetime\<close>
  raise \<open>OverflowError\<close>.
\<close>

definition timedelta_days :: "int \<Rightarrow> py_exception + int" where
  "timedelta_days d = (if \<bar>d\<bar> > 999999999 then Inl OverflowError else Inr (d * 86400))"

definition datetime_add :: "int \<Rightarrow> int \<Rightarrow> py_exception + int" where
  "datetime_add dt delta =
     (if dt + delta < datetime_min \<or> datetime_max < dt + delta then Inl OverflowError
      else Inr (dt + delta))"

text \<open>\<open>Plan.is\_trial\_plan\<close> and \<open>Plan.trial\_renewal\_plan\_id\<close> before its \<open>str\<close>.\<close>

definition is_trial_plan :: "plan \<Rightarrow> bool" where
  "is_trial_plan p =
     (case features p of
        JObj kv \<Rightarrow> map_of kv ''trial'' = Some (JBool True)
      | _ \<Rightarrow> False)"

definition trial_renewal_plan_id :: "plan \<Rightarrow> json option" where
  "trial_renewal_plan_id p =
     (case features p of
        JObj kv \<Rightarrow>
          if is_trial_plan p then
            (case map_of kv ''renewal_plan'' of
               None \<Rightarrow> None
             | Some JNull \<Rightarrow> None
             | Some v \<Rightarrow> Some v)
          else None
      | _ \<Rightarrow> None)"

text \<open>
  \<open>int(str(v))\<close> for the value of \<open>renewal\_plan\<close>: an integer is itself, a string is
  parsed, the text of any other value is not an integer literal.
\<close>

definition int_of_str_json :: "json \<Rightarrow> int option" where
  "int_of_str_json v = (case v of JInt n \<Rightarrow> Some n | JStr s \<Rightarrow> py_int s | _ \<Rightarrow> None)"

text \<open>
  Modelled from the spec: the \<open>BaseRepository\<close> of the subscription service is not
  among the sources; its \<open>get\_by\_id\<close>, \<open>get\_by\_field\<close>, \<open>create\<close> and \<open>update\<close> are
  taken to be those of the payment service's \<open>BaseRepository\<close>: a lookup returns the
  first matching row, \<open>create\<close> inserts a row with a new key, \<open>update\<close> changes the listed
  columns of the row with the given key, if there is one.
\<close>

definition sub_update :: "db \<Rightarrow> uuid \<Rightarrow> (subscription \<Rightarrow> subscription) \<Rightarrow> db" where
  "sub_update d i f =
     (case subscriptions d i of
        None \<Rightarrow> d
      | Some s \<Rightarrow> d\<lparr>subscriptions := (subscriptions d)(i \<mapsto> f s)\<rparr>)"

definition webhook_update :: "db \<Rightarrow> nat \<Rightarrow> (webhook_row \<Rightarrow> webhook_row) \<Rightarrow> db" where
  "webhook_update d i f = d\<lparr>inbox := map (\<lambda>w. if w_id w = i then f w else w) (inbox d)\<rparr>"

definition new_webhook_id :: "webhook_row list \<Rightarrow> nat" where
  "new_webhook_id rows = Suc (foldr max (map w_id rows) 0)"

text \<open>\<open>PlanRepository.get\_renewal\_plan\<close>.\<close>

definition get_renewal_plan :: "db \<Rightarrow> int \<Rightarrow> plan option" where
  "get_renewal_plan d trial_plan_id =
     (case plans d trial_plan_id of
        None \<Rightarrow> None
      | Some trial_plan \<Rightarrow>
          if \<not> is_trial_plan trial_plan then None
          else (case trial_renewal_plan_id trial_plan of
                  None \<Rightarrow> None
                | Some v \<Rightarrow> (case int_of_str_json v of None \<Rightarrow> None | Some n \<Rightarrow> plans d n)))"

text \<open>\<open>SubscriptionRepository.update\_status\<close>; \<open>now\<close> is \<open>datetime.utcnow()\<close>.\<close>

definition update_status :: "db \<Rightarrow> int \<Rightarrow> uuid \<Rightarrow> string \<Rightarrow> db" where
  "update_status d now subscription_id status =
     (if status = ''cancelled''
      then sub_update d subscription_id (\<lambda>s. s\<lparr>s_status := status, s_canceled_at := Some now\<rparr>)
      else sub_update d subscription_id (\<lambda>s. s\<lparr>s_status := status\<rparr>))"

text \<open>\<open>WebhookRepository\<close>.\<close>

definition get_by_event_id :: "db \<Rightarrow> string \<Rightarrow> webhook_row option" where
  "get_by_event_id d event_id = find (\<lambda>w. w_event_id w = event_id) (inbox d)"

definition mark_processed :: "db \<Rightarrow> int \<Rightarrow> nat \<Rightarrow> db" where
  "mark_processed d now webhook_id =
     webhook_update d webhook_id (\<lambda>w. w\<lparr>w_processed := True, w_processed_at := Some now\<rparr>)"

definition create_webhook_request :: "db \<Rightarrow> string \<Rightarrow> webhook_payload \<Rightarrow> db" where
  "create_webhook_request d event_id payload =
     d\<lparr>inbox := inbox d @
          [\<lparr>w_id = new_webhook_id (inbox d), w_event_id = event_id, w_payload = payload,
            w_processed = False, w_processed_at = None, w_error_message = None,
            w_retry_count = 0\<rparr>]\<rparr>"

text \<open>\<open>session.add(event)\<close>.\<close>

definition add_event :: "db \<Rightarrow> subscription_event \<Rightarrow> db" where
  "add_event d e = d\<lparr>events := events d @ [e]\<rparr>"

text \<open>
  \<open>Subscription.extend\_subscription(months)\<close>, as the new \<open>end\_date\<close> or the
  exception raised.
\<close>

definition extend_subscription :: "plan \<Rightarrow> int \<Rightarrow> int \<Rightarrow> py_exception + int" where
  "extend_subscription pl end_date months =
     (if billing_cycle pl = ''yearly''
      then (case timedelta_days 365 of
              Inl e \<Rightarrow> Inl e
            | Inr delta \<Rightarrow> datetime_add end_date delta)
      else (case timedelta_days (30 * months) of
              Inl e \<Rightarrow> Inl e
            | Inr delta \<Rightarrow> datetime_add end_date delta))"

text \<open>
  \<open>WebhookService.\_handle\_payment\_success\<close>.  \<open>subscription\<close> is the row loaded by
  the caller, \<open>subscription.plan\<close> is the plan row that its \<open>plan\_id\<close> refers to; the
  result is the state of the open transaction, or the exception raised.
\<close>

definition handle_payment_success ::
  "db \<Rightarrow> int \<Rightarrow> subscription \<Rightarrow> uuid \<Rightarrow> int \<Rightarrow> py_exception + db" where
  "handle_payment_success d now subscription transaction_id amount =
     (if s_status subscription = ''pending'' then
        (case plans d (s_plan_id subscription) of
           None \<Rightarrow> Inl AttributeError
         | Some pl \<Rightarrow>
             let new_status = (if is_trial_plan pl then ''trial'' else ''active'');
                 d1 = update_status d now (s_id subscription) new_status
             in Inr (add_event d1
                  \<lparr>e_subscription_id = s_id subscription, e_event_type = ''payment_success'',
                   e_transaction_id = transaction_id, e_old_plan_id = None,
                   e_new_plan_id = None, e_amount = amount\<rparr>))
      else if s_status subscription = ''past_due'' then
        (let d1 = update_status d now (s_id subscription) ''active''
         in Inr (add_event d1
              \<lparr>e_subscription_id = s_id subscription, e_event_type = ''payment_success'',
               e_transaction_id = transaction_id, e_old_plan_id = None,
               e_new_plan_id = None, e_amount = amount\<rparr>))
      else if s_status subscription \<in> set [''active'', ''trial''] then
        (case plans d (s_plan_id subscription) of
           None \<Rightarrow> Inl AttributeError
         | Some pl \<Rightarrow>
             (case (if billing_cycle pl = ''yearly''
                    then extend_subscription pl (s_end_date subscription) 1
                    else extend_subscription pl (s_end_date subscription) 1) of
                Inl e \<Rightarrow> Inl e
              | Inr end_date \<Rightarrow>
                  let d1 = sub_update d (s_id subscription) (\<lambda>s. s\<lparr>s_end_date := end_date\<rparr>);
                      (d2, old_plan_id, new_plan_id) =
                        (if s_status subscription = ''active'' then (d1, None, None)
                         else
                           (case get_renewal_plan d1 (plan_id pl) of
                              Some renewal_plan \<Rightarrow>
                                (sub_update d1 (s_id subscription)
                                   (\<lambda>s. s\<lparr>s_plan_id := plan_id renewal_plan,
                                          s_status := ''active''\<rparr>),
                                 Some (plan_id pl), Some (plan_id renewal_plan))
                            | None \<Rightarrow> (d1, None, None)))
                  in Inr (add_event d2
                       \<lparr>e_subscription_id = s_id subscription, e_event_type = ''renewed'',
                        e_transaction_id = transaction_id, e_old_plan_id = old_plan_id,
                        e_new_plan_id = new_plan_id, e_amount = amount\<rparr>)))
      else Inr d)"

text \<open>\<open>WebhookService.\_handle\_payment\_failure\<close>.\<close>

definition handle_payment_failure ::
  "db \<Rightarrow> int \<Rightarrow> subscription \<Rightarrow> uuid \<Rightarrow> int \<Rightarrow> py_exception + db" where
  "handle_payment_failure d now subscription transaction_id amount =
     (let d1 =
            (if s_status subscription = ''pending'' then d
             else if s_status subscription \<in> set [''active'', ''trial'']
             then update_status d now (s_id subscription) ''revoked''
             else d)
      in Inr (add_event d1
           \<lparr>e_subscription_id = s_id subscription, e_event_type = ''payment_failed'',
            e_transaction_id = transaction_id, e_old_plan_id = None,
            e_new_plan_id = None, e_amount = amount\<rparr>))"

text \<open>
  \<open>WebhookService.process\_webhook\_event\<close>: the boolean it returns and the session
  afterwards.
\<close>

definition process_webhook_event ::
  "session \<Rightarrow> int \<Rightarrow> string \<Rightarrow> webhook_payload \<Rightarrow> bool \<times> session" where
  "process_webhook_event sess now event_id payload =
     (let transaction_id = p_transaction_id payload;
          subscription_id = p_subscription_id payload;
          status = p_status payload;
          amount = p_amount payload
      in case subscriptions (working sess) subscription_id of
           None \<Rightarrow> (False, sess)
         | Some subscription \<Rightarrow>
             let handled =
                   (if status = ''success''
                    then Some (handle_payment_success (working sess) now subscription
                                 transaction_id amount)
                    else if status = ''failed''
                    then Some (handle_payment_failure (working sess) now subscription
                                 transaction_id amount)
                    else None)
             in (case handled of
                   None \<Rightarrow> (False, sess)
                 | Some (Inl e) \<Rightarrow> (False, rollback sess)
                 | Some (Inr d1) \<Rightarrow>
                     let d2 = (case get_by_event_id d1 event_id of
                                 None \<Rightarrow> d1
                               | Some webhook \<Rightarrow> mark_processed d1 now (w_id webhook))
                     in (True, commit (sess\<lparr>working := d2\<rparr>))))"

text \<open>
  Vocabulary for the statements about \<open>process\_webhook\_event\<close>.  \<open>event\_row\<close> is the
  \<open>SubscriptionEvent\<close> that a handler builds for a subscription and a payload.
  \<open>applied sess res sub' evs\<close> says of a result \<open>res\<close> of the call in session \<open>sess\<close>:
  it returned \<open>True\<close>, the transaction is committed, the row of the subscription is
  now \<open>sub'\<close>, the rows \<open>evs\<close> and no others were appended to the events, and no other
  subscription and no plan changed.
\<close>

definition event_row ::
  "subscription \<Rightarrow> webhook_payload \<Rightarrow> string \<Rightarrow> int option \<Rightarrow> int option \<Rightarrow> subscription_event" where
  "event_row sub payload event_type old_plan_id new_plan_id =
     \<lparr>e_subscription_id = s_id sub, e_event_type = event_type,
      e_transaction_id = p_transaction_id payload, e_old_plan_id = old_plan_id,
      e_new_plan_id = new_plan_id, e_amount = p_amount payload\<rparr>"

definition applied ::
  "session \<Rightarrow> bool \<times> session \<Rightarrow> subscription \<Rightarrow> subscription_event list \<Rightarrow> bool" where
  "applied sess res sub' evs =
     (fst res \<and> committed (snd res) = working (snd res) \<and>
      subscriptions (working (snd res)) = (subscriptions (working sess))(s_id sub' \<mapsto> sub') \<and>
      events (working (snd res)) = events (working sess) @ evs \<and>
      plans (working (snd res)) = plans (working sess))"

record webhook_response =
  resp_status :: string
  resp_message :: string
  resp_event_id :: "string option"

text \<open>
  \<open>WebhookService.process\_payment\_webhook\<close>: the response or the exception that
  leaves the method, and the session afterwards.
\<close>

definition process_payment_webhook ::
  "session \<Rightarrow> int \<Rightarrow> webhook_payload \<Rightarrow> (py_exception + webhook_response) \<times> session" where
  "process_payment_webhook sess now payload =
     (let existing_webhook = get_by_event_id (working sess) (p_event_id payload)
      in if (case existing_webhook of None \<Rightarrow> False | Some w \<Rightarrow> w_processed w)
         then (Inr \<lparr>resp_status = ''duplicate'', resp_message = ''Event already processed'',
                     resp_event_id = Some (p_event_id payload)\<rparr>, sess)
         else
           let sess1 =
                 (case existing_webhook of
                    Some w \<Rightarrow>
                      sess\<lparr>working :=
                        webhook_update (working sess) (w_id w) (\<lambda>r. r\<lparr>w_payload := payload\<rparr>)\<rparr>
                  | None \<Rightarrow>
                      sess\<lparr>working :=
                        create_webhook_request (working sess) (p_event_id payload) payload\<rparr>);
               (processed, sess2) = process_webhook_event sess1 now (p_event_id payload) payload
           in if \<not> processed
              then (Inl (RuntimeError ''Webhook processing returned false''), rollback sess2)
              else (Inr \<lparr>resp_status = ''processed'',
                          resp_message = ''Webhook processed successfully'',
                          resp_event_id = Some (p_event_id payload)\<rparr>, commit sess2))"

text \<open>
  Sample rows in the manner of the test fixtures (\<open>tests/conftest.py\<close>): the basic plan
  1, the trial plan 5 whose renewal plan is plan 1, one subscription 7 with a given status
  and plan, and a session whose transaction has not written anything yet.
\<close>

definition sample_plan :: plan where
  "sample_plan = \<lparr>plan_id = 1, plan_name = ''Basic Plan'', billing_cycle = ''monthly'',
     features = JObj [(''limits'', JObj [(''api_calls'', JInt 1000)])]\<rparr>"

definition sample_trial_plan :: plan where
  "sample_trial_plan = \<lparr>plan_id = 5, plan_name = ''Trial Plan'', billing_cycle = ''monthly'',
     features = JObj [(''limits'', JObj [(''api_calls'', JInt 100)]), (''trial'', JBool True),
       (''period_days'', JInt 7), (''renewal_plan'', JInt 1)]\<rparr>"

definition sample_subscription :: "string \<Rightarrow> int \<Rightarrow> subscription" where
  "sample_subscription st pid = \<lparr>s_id = 7, s_user_id = 1, s_plan_id = pid, s_status = st,
     s_start_date = 1700000000, s_end_date = 1702592000, s_canceled_at = None\<rparr>"

definition sample_db :: "string \<Rightarrow> int \<Rightarrow> db" where
  "sample_db st pid = \<lparr>subscriptions = Map.empty(7 \<mapsto> sample_subscription st pid),
     plans = Map.empty(1 \<mapsto> sample_plan, 5 \<mapsto> sample_trial_plan),
     events = [], inbox = []\<rparr>"

definition sample_session :: "string \<Rightarrow> int \<Rightarrow> session" where
  "sample_session st pid = \<lparr>committed = sample_db st pid, working = sample_db st pid\<rparr>"

definition sample_webhook_payload :: "string \<Rightarrow> uuid \<Rightarrow> webhook_payload" where
  "sample_webhook_payload st sid = \<lparr>p_event_id = ''test-event-123'', p_transaction_id = 11,
     p_subscription_id = sid, p_status = st, p_amount = 2999\<rparr>"


definition sample_processed_row :: webhook_row where
  "sample_processed_row = \<lparr>w_id = 1, w_event_id = ''test-event-123'',
     w_payload = sample_webhook_payload ''success'' 7, w_processed = True,
     w_processed_at = Some 100, w_error_message = None, w_retry_count = 0\<rparr>"

definition sample_processed_session :: session where
  "sample_processed_session =
     \<lparr>committed = (sample_db ''active'' 1)\<lparr>inbox := [sample_processed_row]\<rparr>,
      working = (sample_db ''active'' 1)\<lparr>inbox := [sample_processed_row]\<rparr>\<rparr>"

subsection \<open>Webhook client (payment-service/app/core/webhook\_client.py)\<close>

text \<open>
  The exceptions of \<open>httpx\<close> that the client meets: \<open>HTTPStatusError\<close> (raised by
  \<open>raise\_for\_status\<close>) and \<open>TimeoutException\<close> are subclasses of \<open>HTTPError\<close>;
  \<open>OtherError\<close> is an exception outside that hierarchy.
\<close>

datatype httpx_exception = HTTPStatusError nat | TimeoutException | HTTPError string
  | OtherError string

text \<open>
  What one \<open>client.post\<close> does: it returns a response (status code, the value of
  \<open>response.json()\<close> or \<open>None\<close> when that raises \<open>JSONDecodeError\<close>, and
  \<open>response.text\<close>), or a response whose body cannot be decoded as text, for which
  \<open>response.json()\<close> raises \<open>UnicodeDecodeError\<close> (status code and
  \<open>response.text\<close>), or it raises.
\<close>

datatype post_outcome = Response nat "json option" string | Undecodable nat string
  | Raises httpx_exception

datatype webhook_reply = Parsed json | RawSuccess string

text \<open>
  The retry loop of \<open>send\_webhook\<close>, from iteration \<open>attempt\<close> of
  \<open>range(retries + 1)\<close> on.  \<open>post k\<close> is the outcome of the POST made in iteration
  \<open>k\<close>; \<open>sleeps\<close> are the arguments of the \<open>asyncio.sleep\<close> calls made so far.  The
  POST and both \<open>raise\_for\_status\<close> calls stand inside the \<open>try\<close>, and each of its
  three \<open>except\<close> clauses (\<open>TimeoutException\<close>, \<open>HTTPError\<close>, \<open>Exception\<close>) records
  the exception, and sleeps and continues while \<open>attempt < retries\<close>.
\<close>

function send_loop ::
  "(nat \<Rightarrow> post_outcome) \<Rightarrow> int \<Rightarrow> nat \<Rightarrow> nat list \<Rightarrow> httpx_exception option \<Rightarrow>
   (httpx_exception + webhook_reply) \<times> nat list" where
  "send_loop post retries attempt sleeps last_exception =
     (if \<not> int attempt < retries + 1 then
        (case last_exception of
           Some e \<Rightarrow> (Inl e, sleeps)
         | None \<Rightarrow> (Inl (HTTPError ''Webhook delivery failed after all retries''), sleeps))
      else
        (case post attempt of
           Response status_code body text \<Rightarrow>
             if status_code < 400 then
               (case body of
                  Some v \<Rightarrow> (Inr (Parsed v), sleeps)
                | None \<Rightarrow> (Inr (RawSuccess text), sleeps))
             else if 400 \<le> status_code \<and> status_code < 500 then
               (if int attempt < retries
                then send_loop post retries (Suc attempt) (sleeps @ [2 ^ attempt])
                       (Some (HTTPStatusError status_code))
                else send_loop post retries (Suc attempt) sleeps
                       (Some (HTTPStatusError status_code)))
             else if int attempt < retries then
               send_loop post retries (Suc attempt) (sleeps @ [2 ^ attempt]) last_exception
             else
               send_loop post retries (Suc attempt) sleeps (Some (HTTPStatusError status_code))
         | Undecodable status_code text \<Rightarrow>
             if status_code < 400 then
               (if int attempt < retries
                then send_loop post retries (Suc attempt) (sleeps @ [2 ^ attempt])
                       (Some (OtherError ''UnicodeDecodeError''))
                else send_loop post retries (Suc attempt) sleeps
                       (Some (OtherError ''UnicodeDecodeError'')))
             else if 400 \<le> status_code \<and> status_code < 500 then
               (if int attempt < retries
                then send_loop post retries (Suc attempt) (sleeps @ [2 ^ attempt])
                       (Some (HTTPStatusError status_code))
                else send_loop post retries (Suc attempt) sleeps
                       (Some (HTTPStatusError status_code)))
             else if int attempt < retries then
               send_loop post retries (Suc attempt) (sleeps @ [2 ^ attempt]) last_exception
             else
               send_loop post retries (Suc attempt) sleeps (Some (HTTPStatusError status_code))
         | Raises e \<Rightarrow>
             if int attempt < retries
             then send_loop post retries (Suc attempt) (sleeps @ [2 ^ attempt]) (Some e)
             else send_loop post retries (Suc attempt) sleeps (Some e)))"
  by pat_completeness auto
termination
  by (relation "measure (\<lambda>(post, retries, attempt, sleeps, last). nat (retries + 1 - int attempt))")
    auto

declare send_loop.simps [simp del]

definition send_webhook ::
  "(nat \<Rightarrow> post_outcome) \<Rightarrow> int \<Rightarrow> (httpx_exception + webhook_reply) \<times> nat list" where
  "send_webhook post retries = send_loop post retries 0 [] None"

subsection \<open>Payment processor (payment-service/app/services/payment\_service.py)\<close>

record payment_request =
  pr_subscription_id :: "uuid option"
  pr_amount :: int
  pr_card_number :: string
  pr_trial :: bool
  pr_renewal :: bool

record transaction =
  t_id :: uuid
  t_subscription_id :: "uuid option"
  t_amount :: int
  t_status :: string
  t_gateway_reference :: "string option"
  t_error_message :: "string option"
  t_trial :: bool
  t_renewal :: bool

text \<open>
  The \<open>transactions\<close> table, and next to it the list of the status values written to
  it, oldest first, each with the key of its row.
\<close>

record pay_db =
  transactions :: "uuid \<Rightarrow> transaction option"
  status_log :: "(uuid \<times> string) list"

record pay_session =
  pay_committed :: pay_db
  pay_working :: pay_db

definition pay_commit :: "pay_session \<Rightarrow> pay_session" where
  "pay_commit sess = sess\<lparr>pay_committed := pay_working sess\<rparr>"

definition pay_rollback :: "pay_session \<Rightarrow> pay_session" where
  "pay_rollback sess = sess\<lparr>pay_working := pay_committed sess\<rparr>"

text \<open>
  \<open>MockGatewayService.process\_payment\<close>; the three random draws of one call are
  parameters.
\<close>

record gateway_draw =
  gw_reference :: string
  gw_random_success :: bool
  gw_error_code :: string

record gateway_response =
  g_gateway_reference :: string
  g_status :: string
  g_message :: string

definition fail_card :: string where
  "fail_card = ''4000000000000002''"

definition success_card :: string where
  "success_card = ''4242424242424242''"

definition gateway_process_payment :: "gateway_draw \<Rightarrow> string \<Rightarrow> gateway_response" where
  "gateway_process_payment draw card_number =
     (if card_number = fail_card then
        \<lparr>g_gateway_reference = gw_reference draw, g_status = ''failed'',
         g_message = ''Payment failed: card_declined''\<rparr>
      else if card_number = success_card \<or> gw_random_success draw then
        \<lparr>g_gateway_reference = gw_reference draw, g_status = ''success'',
         g_message = ''Payment processed successfully''\<rparr>
      else
        \<lparr>g_gateway_reference = gw_reference draw, g_status = ''failed'',
         g_message = ''Payment failed: '' @ gw_error_code draw\<rparr>)"

text \<open>
  \<open>TransactionRepository.update\_status\<close>: the reference and the message are written
  only when they are given and not empty; a key without a row changes nothing.
\<close>

definition tx_update_status ::
  "pay_db \<Rightarrow> uuid \<Rightarrow> string \<Rightarrow> string option \<Rightarrow> string option \<Rightarrow> pay_db" where
  "tx_update_status d transaction_id status gateway_reference error_message =
     (case transactions d transaction_id of
        None \<Rightarrow> d
      | Some t \<Rightarrow>
          let t1 = t\<lparr>t_status := status\<rparr>;
              t2 = (case gateway_reference of
                      None \<Rightarrow> t1
                    | Some g \<Rightarrow> if g = [] then t1 else t1\<lparr>t_gateway_reference := Some g\<rparr>);
              t3 = (case error_message of
                      None \<Rightarrow> t2
                    | Some m \<Rightarrow> if m = [] then t2 else t2\<lparr>t_error_message := Some m\<rparr>)
          in d\<lparr>transactions := (transactions d)(transaction_id \<mapsto> t3),
               status_log := status_log d @ [(transaction_id, status)]\<rparr>)"

text \<open>
  \<open>PaymentService.process\_payment\<close>.  \<open>new\_id\<close> is the \<open>uuid4()\<close> drawn for the new
  row (a key that exists already violates the primary key), \<open>redis\_ok\<close> tells whether
  the push onto \<open>q:pay:refund\_initiation\<close> succeeds.  The notification to the
  subscription service writes nothing to the database and swallows every exception.
\<close>

definition process_payment ::
  "pay_session \<Rightarrow> payment_request \<Rightarrow> uuid \<Rightarrow> gateway_draw \<Rightarrow> bool \<Rightarrow>
   (py_exception + gateway_response) \<times> pay_session" where
  "process_payment sess request new_id draw redis_ok =
     (let d = pay_working sess
      in if transactions d new_id \<noteq> None then (Inl IntegrityError, pay_rollback sess)
         else
           let d1 = d\<lparr>transactions := (transactions d)(new_id \<mapsto>
                        \<lparr>t_id = new_id, t_subscription_id = pr_subscription_id request,
                         t_amount = pr_amount request, t_status = ''pending'',
                         t_gateway_reference = None, t_error_message = None,
                         t_trial = pr_trial request, t_renewal = pr_renewal request\<rparr>),
                      status_log := status_log d @ [(new_id, ''pending'')]\<rparr>;
               d2 = tx_update_status d1 new_id ''processing'' None None;
               gateway_response = gateway_process_payment draw (pr_card_number request);
               d3 = tx_update_status d2 new_id (g_status gateway_response)
                      (Some (g_gateway_reference gateway_response))
                      (if g_status gateway_response = ''failed''
                       then Some (g_message gateway_response) else None)
           in if pr_trial request \<and> g_status gateway_response = ''success'' \<and> \<not> redis_ok
              then (Inl ConnectionError, pay_rollback (sess\<lparr>pay_working := d3\<rparr>))
              else (Inr gateway_response, pay_commit (sess\<lparr>pay_working := d3\<rparr>)))"

text \<open>
  \<open>PaymentService.initiate\_refund\<close>.  \<open>MockGatewayService.initiate\_refund\<close> returns
  a dictionary, so reading \<open>gateway\_response.status\<close> raises \<open>AttributeError\<close>; the
  handler rolls back and returns \<open>False\<close>.
\<close>

definition initiate_refund :: "pay_session \<Rightarrow> uuid \<Rightarrow> bool \<times> pay_session" where
  "initiate_refund sess transaction_id =
     (case transactions (pay_working sess) transaction_id of
        None \<Rightarrow> (False, sess)
      | Some t \<Rightarrow>
          if \<not> t_status t = ''success'' then (False, sess)
          else (False, pay_rollback sess))"

text \<open>A run of the payment service: the operations applied one after the other.\<close>

datatype pay_op = ProcessPayment payment_request uuid gateway_draw bool | InitiateRefund uuid

fun apply_pay_op :: "pay_session \<Rightarrow> pay_op \<Rightarrow> pay_session" where
  "apply_pay_op sess (ProcessPayment request new_id draw redis_ok) =
     snd (process_payment sess request new_id draw redis_ok)"
| "apply_pay_op sess (InitiateRefund transaction_id) = snd (initiate_refund sess transaction_id)"

definition initial_pay_session :: pay_session where
  "initial_pay_session =
     \<lparr>pay_committed = \<lparr>transactions = Map.empty, status_log = []\<rparr>,
      pay_working = \<lparr>transactions = Map.empty, status_log = []\<rparr>\<rparr>"

text \<open>
  The invariant in the words of the specification, on the list of the status values
  written to one transaction: \<open>Transaction.is\_successful\<close>, \<open>is\_failed\<close> and
  \<open>is\_refund\<close> name the terminal ones; after a terminal status neither
  \<open>pending\<close> nor \<open>processing\<close> is written; no terminal status is written twice; and
  a status written directly after a terminal one is a refund status after \<open>success\<close>.
\<close>

definition is_refund :: "string \<Rightarrow> bool" where
  "is_refund st = (st \<in> set [''refund_initiated'', ''refund_complete'', ''refund_error''])"

definition is_terminal :: "string \<Rightarrow> bool" where
  "is_terminal st = (st = ''success'' \<or> st = ''failed'' \<or> is_refund st)"

definition status_history :: "pay_db \<Rightarrow> uuid \<Rightarrow> string list" where
  "status_history d i = map snd (filter (\<lambda>e. fst e = i) (status_log d))"

fun never_reverted :: "string list \<Rightarrow> bool" where
  "never_reverted [] = True"
| "never_reverted (x # xs) =
     ((is_terminal x \<longrightarrow> list_all (\<lambda>y. y \<noteq> ''pending'' \<and> y \<noteq> ''processing'') xs) \<and>
      never_reverted xs)"

definition terminal_once :: "string list \<Rightarrow> bool" where
  "terminal_once h = list_all (\<lambda>st. is_terminal st \<longrightarrow> count_list h st \<le> 1) h"

fun terminal_moves :: "string list \<Rightarrow> bool" where
  "terminal_moves (x # y # xs) =
     ((is_terminal x \<longrightarrow> x = ''success'' \<and> is_refund y) \<and> terminal_moves (y # xs))"
| "terminal_moves xs = True"

subsection \<open>Job queues of the subscription service
  (subscription-service/app/workers/queue\_processor.py, core/redis\_client.py,
  core/queue\_policies.py)\<close>

text \<open>
  The library functions that the workers call: \<open>json.loads\<close> (\<open>None\<close> when it
  raises), \<open>json.dumps\<close>, the builtin \<open>hash\<close> of a string, which differs from one
  interpreter process to the next, and \<open>str\<close> of a list or dictionary.
\<close>

record pylib =
  json_loads :: "string \<Rightarrow> json option"
  json_dumps :: "json \<Rightarrow> string"
  py_hash :: "string \<Rightarrow> int"
  py_repr :: "json \<Rightarrow> string"

text \<open>Truth value of a value, \<open>str\<close> of a value, \<open>int\<close> of a value, item assignment.\<close>

definition py_truthy :: "json \<Rightarrow> bool" where
  "py_truthy v =
     (case v of JNull \<Rightarrow> False | JBool b \<Rightarrow> b | JInt n \<Rightarrow> n \<noteq> 0 | JStr t \<Rightarrow> t \<noteq> []
      | JArr xs \<Rightarrow> xs \<noteq> [] | JObj kv \<Rightarrow> kv \<noteq> [])"

definition py_str :: "pylib \<Rightarrow> json \<Rightarrow> string" where
  "py_str lib v =
     (case v of JNull \<Rightarrow> ''None'' | JBool b \<Rightarrow> (if b then ''True'' else ''False'')
      | JInt n \<Rightarrow> str_int n | JStr t \<Rightarrow> t | JArr xs \<Rightarrow> py_repr lib v
      | JObj kv \<Rightarrow> py_repr lib v)"

definition int_of_json :: "json \<Rightarrow> py_exception + int" where
  "int_of_json v =
     (case v of JNull \<Rightarrow> Inl TypeError | JBool b \<Rightarrow> Inr (if b then 1 else 0)
      | JInt n \<Rightarrow> Inr n
      | JStr t \<Rightarrow> (case py_int t of None \<Rightarrow> Inl ValueError | Some n \<Rightarrow> Inr n)
      | JArr xs \<Rightarrow> Inl TypeError | JObj kv \<Rightarrow> Inl TypeError)"

fun dict_set :: "(string \<times> json) list \<Rightarrow> string \<Rightarrow> json \<Rightarrow> (string \<times> json) list" where
  "dict_set [] k v = [(k, v)]"
| "dict_set ((k', v') # kv) k v = (if k' = k then (k, v) # kv else (k', v') # dict_set kv k v)"

text \<open>
  Redis: the lists (left end first), the sorted sets (member to score) and the lock keys
  (key to time to live).  A lock key is present until it is deleted; the passing of time
  is not part of the model.
\<close>

record redis =
  lists :: "string \<Rightarrow> string list"
  zsets :: "string \<Rightarrow> string \<Rightarrow> int option"
  locks :: "string \<Rightarrow> int option"

definition lpush :: "redis \<Rightarrow> string \<Rightarrow> string \<Rightarrow> redis" where
  "lpush r key v = r\<lparr>lists := (lists r)(key := v # lists r key)\<rparr>"

definition queue_message :: "pylib \<Rightarrow> redis \<Rightarrow> string \<Rightarrow> json \<Rightarrow> redis" where
  "queue_message lib r queue_name message = lpush r queue_name (json_dumps lib message)"

text \<open>\<open>claim\_message\<close> is \<open>BRPOPLPUSH\<close>: nothing when the list stays empty.\<close>

definition claim_message :: "redis \<Rightarrow> string \<Rightarrow> string \<Rightarrow> string option \<times> redis" where
  "claim_message r main_queue processing_queue =
     (case lists r main_queue of
        [] \<Rightarrow> (None, r)
      | x # xs \<Rightarrow>
          let m = last (x # xs);
              r1 = r\<lparr>lists := (lists r)(main_queue := butlast (x # xs))\<rparr>
          in (Some m, lpush r1 processing_queue m))"

definition remove_from_processing :: "redis \<Rightarrow> string \<Rightarrow> string \<Rightarrow> redis" where
  "remove_from_processing r processing_queue message_json =
     r\<lparr>lists := (lists r)(processing_queue := remove1 message_json (lists r processing_queue))\<rparr>"

definition queue_delayed_message ::
  "pylib \<Rightarrow> redis \<Rightarrow> int \<Rightarrow> string \<Rightarrow> json \<Rightarrow> int \<Rightarrow> redis" where
  "queue_delayed_message lib r now queue_name message delay_seconds =
     (let delayed_queue = queue_name @ '':delayed'';
          score = now + delay_seconds
      in r\<lparr>zsets := (zsets r)(delayed_queue :=
               (zsets r delayed_queue)(json_dumps lib message \<mapsto> score))\<rparr>)"

definition set_lock :: "redis \<Rightarrow> string \<Rightarrow> int \<Rightarrow> bool \<times> redis" where
  "set_lock r lock_key ttl_seconds =
     (case locks r lock_key of
        Some t \<Rightarrow> (False, r)
      | None \<Rightarrow> (True, r\<lparr>locks := (locks r)(lock_key \<mapsto> ttl_seconds)\<rparr>))"

definition release_lock :: "redis \<Rightarrow> string \<Rightarrow> redis" where
  "release_lock r lock_key = r\<lparr>locks := (locks r)(lock_key := None)\<rparr>"

definition lock_exists :: "redis \<Rightarrow> string \<Rightarrow> bool" where
  "lock_exists r lock_key = (locks r lock_key \<noteq> None)"

text \<open>
  \<open>QueuePolicy\<close> and \<open>QUEUE\_POLICIES\<close>.  The multiplier is the float \<open>2.0\<close> in
  every policy; its powers are exact, and it is kept as an integer.
\<close>

record queue_policy =
  max_retries :: int
  base_delay_seconds :: int
  backoff_multiplier :: int
  max_delay_seconds :: int
  jitter_seconds :: int
  lock_ttl_seconds :: int
  visibility_timeout_seconds :: int

definition DEFAULT_POLICY :: queue_policy where
  "DEFAULT_POLICY = \<lparr>max_retries = 5, base_delay_seconds = 60, backoff_multiplier = 2,
     max_delay_seconds = 3600, jitter_seconds = 10, lock_ttl_seconds = 180,
     visibility_timeout_seconds = 300\<rparr>"

definition QUEUE_POLICIES :: "string \<Rightarrow> queue_policy option" where
  "QUEUE_POLICIES =
     [''q:sub:payment_initiation'' \<mapsto> DEFAULT_POLICY,
      ''q:sub:trial_payment'' \<mapsto>
        \<lparr>max_retries = 3, base_delay_seconds = 60, backoff_multiplier = 2,
         max_delay_seconds = 600, jitter_seconds = 5, lock_ttl_seconds = 120,
         visibility_timeout_seconds = 240\<rparr>,
      ''q:sub:plan_change'' \<mapsto> DEFAULT_POLICY,
      ''q:sub:usage_sync'' \<mapsto> DEFAULT_POLICY]"

text \<open>\<open>\_compute\_backoff\<close>; \<open>rnd\<close> is the value of \<open>random.randint(0, jitter)\<close>.\<close>

definition compute_backoff :: "string \<Rightarrow> int \<Rightarrow> int \<Rightarrow> int" where
  "compute_backoff queue_name attempts rnd =
     (let policy = QUEUE_POLICIES queue_name;
          base = (case policy of None \<Rightarrow> 60 | Some p \<Rightarrow> base_delay_seconds p);
          mult = (case policy of None \<Rightarrow> 2 | Some p \<Rightarrow> backoff_multiplier p);
          cap = (case policy of None \<Rightarrow> 3600 | Some p \<Rightarrow> max_delay_seconds p);
          delay = min (base * mult ^ nat (max 0 attempts)) cap
      in max 0 (delay + rnd))"

text \<open>
  The attempts that a worker reads from a claimed message:
  \<open>int((raw or {}).get("attempts", 0) if isinstance(raw, dict) else 0)\<close>.
\<close>

definition message_attempts :: "json \<Rightarrow> py_exception + int" where
  "message_attempts raw =
     (case raw of
        JObj kv \<Rightarrow> (case map_of kv ''attempts'' of None \<Rightarrow> Inr 0 | Some v \<Rightarrow> int_of_json v)
      | _ \<Rightarrow> Inr 0)"

text \<open>
  The identifier that \<open>\_claim\_lock\_process\<close> puts into its lock key,
  \<open>hash(msg)\<close>, and the one that \<open>sweep\_processing\_queues\<close> puts into the key it looks
  for, \<open>(raw.get("id") if isinstance(raw, dict) else None) or str(hash(msg))\<close>.
\<close>

definition worker_message_id :: "pylib \<Rightarrow> string \<Rightarrow> string" where
  "worker_message_id lib msg = str_int (py_hash lib msg)"

definition sweeper_message_id :: "pylib \<Rightarrow> string \<Rightarrow> string" where
  "sweeper_message_id lib msg =
     (let raw = (case json_loads lib msg of None \<Rightarrow> JObj [] | Some v \<Rightarrow> v);
          mid = (case raw of
                   JObj kv \<Rightarrow> (case map_of kv ''id'' of None \<Rightarrow> JNull | Some v \<Rightarrow> v)
                 | _ \<Rightarrow> JNull)
      in if py_truthy mid then py_str lib mid else str_int (py_hash lib msg))"

definition worker_lock_key :: "pylib \<Rightarrow> string \<Rightarrow> string \<Rightarrow> string" where
  "worker_lock_key lib queue_main msg = ''lock:'' @ queue_main @ '':'' @ worker_message_id lib msg"

definition sweeper_lock_key :: "pylib \<Rightarrow> string \<Rightarrow> string \<Rightarrow> string" where
  "sweeper_lock_key lib main msg = ''lock:'' @ main @ '':'' @ sweeper_message_id lib msg"

text \<open>
  The message written back for a retry: the dictionary with \<open>attempts\<close> set, or a
  wrapper around a value that is not a dictionary.
\<close>

definition retry_message :: "json \<Rightarrow> int \<Rightarrow> json" where
  "retry_message raw attempts =
     (case raw of
        JObj kv \<Rightarrow> JObj (dict_set kv ''attempts'' (JInt attempts))
      | _ \<Rightarrow> JObj [(''payload'', raw), (''attempts'', JInt attempts)])"

text \<open>
  \<open>\_claim\_lock\_process\<close> up to the acquisition of the lock: nothing claimed, an
  exception, the lock not acquired (the message goes back to the queue), or the message
  held under the lock.
\<close>

datatype claim_result = NoMessage | ClaimRaised py_exception | LockUnavailable
  | Locked string json int string

definition claim_lock :: "pylib \<Rightarrow> redis \<Rightarrow> string \<Rightarrow> claim_result \<times> redis" where
  "claim_lock lib r queue_main =
     (let queue_processing = queue_main @ '':processing'';
          (claimed, r1) = claim_message r queue_main queue_processing
      in case claimed of
           None \<Rightarrow> (NoMessage, r1)
         | Some msg \<Rightarrow>
             if msg = [] then (NoMessage, r1)
             else
               let raw = (case json_loads lib msg of None \<Rightarrow> JStr msg | Some v \<Rightarrow> v)
               in (case message_attempts raw of
                     Inl e \<Rightarrow> (ClaimRaised e, r1)
                   | Inr attempts \<Rightarrow>
                       let lock_ttl = (case QUEUE_POLICIES queue_main of
                                         None \<Rightarrow> 120 | Some p \<Rightarrow> lock_ttl_seconds p);
                           lock_key = worker_lock_key lib queue_main msg;
                           (got, r2) = set_lock r1 lock_key
                                         (if lock_ttl = 0 then 120 else lock_ttl)
                       in if \<not> got then
                            (let r3 = remove_from_processing r2 queue_processing msg;
                                 r4 = queue_message lib r3 queue_main
                                        (case raw of JObj kv \<Rightarrow> raw
                                         | _ \<Rightarrow> JObj [(''payload'', raw)])
                             in (LockUnavailable, r4))
                          else (Locked msg raw attempts lock_key, r2)))"

text \<open>
  The rest of \<open>\_claim\_lock\_process\<close>: the handler runs on the message; when it raises,
  the message leaves the processing list and is delayed or dead-lettered; the lock is
  released in either case.  \<open>handler\<close> returns a value or raises.
\<close>

definition handle_locked ::
  "pylib \<Rightarrow> redis \<Rightarrow> int \<Rightarrow> int \<Rightarrow> string \<Rightarrow> (string \<Rightarrow> py_exception + string) \<Rightarrow>
   string \<Rightarrow> json \<Rightarrow> int \<Rightarrow> string \<Rightarrow> string \<times> redis" where
  "handle_locked lib r now rnd queue_main handler msg raw attempts lock_key =
     (let queue_processing = queue_main @ '':processing''
      in case handler msg of
           Inr v \<Rightarrow> (v, release_lock r lock_key)
         | Inl e \<Rightarrow>
             let attempts_next = attempts + 1;
                 max_retries' = (case QUEUE_POLICIES queue_main of
                                  None \<Rightarrow> 5 | Some p \<Rightarrow> max_retries p);
                 r1 = remove_from_processing r queue_processing msg
             in if attempts_next \<le> max_retries' then
                  (''retry'',
                   release_lock
                     (queue_delayed_message lib r1 now queue_main
                        (retry_message raw attempts_next)
                        (compute_backoff queue_main attempts_next rnd))
                     lock_key)
                else
                  (''failed'', release_lock (lpush r1 (queue_main @ '':failed'') msg) lock_key))"

definition claim_lock_process ::
  "pylib \<Rightarrow> redis \<Rightarrow> int \<Rightarrow> int \<Rightarrow> string \<Rightarrow> (string \<Rightarrow> py_exception + string) \<Rightarrow>
   (py_exception + string) \<times> redis" where
  "claim_lock_process lib r now rnd queue_main handler =
     (case claim_lock lib r queue_main of
        (NoMessage, r1) \<Rightarrow> (Inr ''no_message'', r1)
      | (ClaimRaised e, r1) \<Rightarrow> (Inl e, r1)
      | (LockUnavailable, r1) \<Rightarrow> (Inr ''retry'', r1)
      | (Locked msg raw attempts lock_key, r1) \<Rightarrow>
          (let (v, r2) = handle_locked lib r1 now rnd queue_main handler msg raw attempts lock_key
           in (Inr v, r2)))"

text \<open>
  \<open>sweep\_processing\_queues\<close>: the body of the inner loop for one entry of a
  processing list, the loop over the entries read by \<open>LRANGE\<close>, and the loop over the
  four queues.  An exception ends the whole sweep.  \<open>rnd\<close> gives the random draw made
  for a message.
\<close>

definition sweep_item ::
  "pylib \<Rightarrow> redis \<Rightarrow> int \<Rightarrow> (string \<Rightarrow> int) \<Rightarrow> string \<Rightarrow> string \<Rightarrow> py_exception + redis" where
  "sweep_item lib r now rnd main msg =
     (let processing = main @ '':processing'';
          raw = (case json_loads lib msg of None \<Rightarrow> JObj [] | Some v \<Rightarrow> v);
          lock_key = sweeper_lock_key lib main msg
      in if lock_exists r lock_key then Inr r
         else
           (case message_attempts raw of
              Inl e \<Rightarrow> Inl e
            | Inr a \<Rightarrow>
                let attempts = a + 1;
                    r1 = remove_from_processing r processing msg;
                    max_try = (case QUEUE_POLICIES main of
                                 None \<Rightarrow> 5 | Some p \<Rightarrow> max_retries p)
                in if attempts \<le> max_try then
                     Inr (queue_delayed_message lib r1 now main (retry_message raw attempts)
                            (compute_backoff main attempts (rnd msg)))
                   else Inr (lpush r1 (main @ '':failed'') msg)))"

fun sweep_items ::
  "pylib \<Rightarrow> redis \<Rightarrow> int \<Rightarrow> (string \<Rightarrow> int) \<Rightarrow> string \<Rightarrow> string list \<Rightarrow> py_exception + redis" where
  "sweep_items lib r now rnd main [] = Inr r"
| "sweep_items lib r now rnd main (msg # items) =
     (case sweep_item lib r now rnd main msg of
        Inl e \<Rightarrow> Inl e
      | Inr r1 \<Rightarrow> sweep_items lib r1 now rnd main items)"

definition sweep_queue ::
  "pylib \<Rightarrow> redis \<Rightarrow> int \<Rightarrow> (string \<Rightarrow> int) \<Rightarrow> string \<Rightarrow> py_exception + redis" where
  "sweep_queue lib r now rnd main =
     sweep_items lib r now rnd main (lists r (main @ '':processing''))"

fun sweep_queues ::
  "pylib \<Rightarrow> redis \<Rightarrow> int \<Rightarrow> (string \<Rightarrow> int) \<Rightarrow> string list \<Rightarrow> py_exception + redis" where
  "sweep_queues lib r now rnd [] = Inr r"
| "sweep_queues lib r now rnd (main # queues) =
     (case sweep_queue lib r now rnd main of
        Inl e \<Rightarrow> Inl e
      | Inr r1 \<Rightarrow> sweep_queues lib r1 now rnd queues)"

definition sweep_processing_queues ::
  "pylib \<Rightarrow> redis \<Rightarrow> int \<Rightarrow> (string \<Rightarrow> int) \<Rightarrow> py_exception + redis" where
  "sweep_processing_queues lib r now rnd =
     sweep_queues lib r now rnd
       [''q:sub:payment_initiation'', ''q:sub:trial_payment'', ''q:sub:plan_change'',
        ''q:sub:usage_sync'']"

text \<open>\<open>raw.get(k)\<close> on a value that is a dictionary.\<close>

definition dict_get :: "json \<Rightarrow> string \<Rightarrow> json option" where
  "dict_get raw k = (case raw of JObj kv \<Rightarrow> map_of kv k | _ \<Rightarrow> None)"

text \<open>
  Sample messages on \<open>q:sub:payment\_initiation\<close>: an envelope with the id \<open>m1\<close>, and
  an envelope with \<open>attempts = 1\<close> and \<open>max\_attempts = 1\<close>; the envelopes after one
  more attempt; a library whose \<open>json.loads\<close> reads the two sample texts, with any
  \<open>hash\<close> and any \<open>json.dumps\<close>; and a Redis holding one message on one queue.
\<close>

definition sample_message :: string where
  \<open>sample_message =
     ''{"id": "m1", "action": "payment_initiation", "attempts": 0, "payload": {}}''\<close>

definition sample_envelope :: json where
  "sample_envelope = JObj [(''id'', JStr ''m1''), (''action'', JStr ''payment_initiation''),
     (''attempts'', JInt 0), (''payload'', JObj [])]"

definition capped_message :: string where
  \<open>capped_message =
     ''{"id": "m2", "action": "payment_initiation", "attempts": 1, "max_attempts": 1, "payload": {}}''\<close>

definition capped_envelope :: json where
  "capped_envelope = JObj [(''id'', JStr ''m2''), (''action'', JStr ''payment_initiation''),
     (''attempts'', JInt 1), (''max_attempts'', JInt 1), (''payload'', JObj [])]"

definition sample_lib :: "(string \<Rightarrow> int) \<Rightarrow> (json \<Rightarrow> string) \<Rightarrow> pylib" where
  "sample_lib h dumps =
     \<lparr>json_loads = (\<lambda>s. if s = sample_message then Some sample_envelope
                         else if s = capped_message then Some capped_envelope else None),
      json_dumps = dumps, py_hash = h, py_repr = dumps\<rparr>"

definition sample_redis :: "string \<Rightarrow> string \<Rightarrow> redis" where
  "sample_redis queue_main msg =
     \<lparr>lists = (\<lambda>k. [])(queue_main := [msg]), zsets = (\<lambda>k. Map.empty), locks = Map.empty\<rparr>"

definition retried_envelope :: json where
  "retried_envelope = JObj [(''id'', JStr ''m1''), (''action'', JStr ''payment_initiation''),
     (''attempts'', JInt 1), (''payload'', JObj [])]"

definition capped_retried_envelope :: json where
  "capped_retried_envelope = JObj [(''id'', JStr ''m2''), (''action'', JStr ''payment_initiation''),
     (''attempts'', JInt 2), (''max_attempts'', JInt 1), (''payload'', JObj [])]"

text \<open>
  The invariant of the payment service's runs: nothing is left uncommitted, a key without
  a row has no history, and the history of a row is \<open>pending\<close>, \<open>processing\<close> and the
  gateway's verdict, which is the stored status.
\<close>

definition pay_inv :: "pay_session \<Rightarrow> bool" where
  "pay_inv s = (pay_working s = pay_committed s \<and>
     (\<forall>i. (case transactions (pay_committed s) i of
             None \<Rightarrow> status_history (pay_committed s) i = []
           | Some t \<Rightarrow>
               (status_history (pay_committed s) i = [''pending'', ''processing'', ''success''] \<or>
                status_history (pay_committed s) i = [''pending'', ''processing'', ''failed'']) \<and>
               t_status t = last (status_history (pay_committed s) i))))"

text \<open>A sample payment request with the success card, and sample draws of the gateway.\<close>

definition sample_payment_request :: payment_request where
  "sample_payment_request = \<lparr>pr_subscription_id = Some 7, pr_amount = 2999,
     pr_card_number = ''4242424242424242'', pr_trial = False, pr_renewal = False\<rparr>"

definition sample_draw :: gateway_draw where
  "sample_draw = \<lparr>gw_reference = ''gw_17000000000001234'', gw_random_success = False,
     gw_error_code = ''card_declined''\<rparr>"

subsection \<open>The workers of the payment service (payment-service/app/workers/tasks.py)\<close>

text \<open>
  \<open>\_hash\_message\<close> (\<open>sha256\<close> is \<open>hashlib.sha256(...).digest\<close>), the
  \<open>message\_id\<close> that \<open>\_parse\_message\<close> returns (\<open>x.get(k) or
  \_hash\_message(message\_json)\<close>), the identifier that the payment service's sweeper
  uses, and the retry ceiling of its workers: the policy's \<open>max\_retries\<close>, replaced by
  \<open>int(max\_attempts)\<close> when the message has a \<open>max\_attempts\<close> that converts.
\<close>

definition hash_message :: "(bytes \<Rightarrow> bytes) \<Rightarrow> string \<Rightarrow> string" where
  "hash_message sha256 message_json = hexdigest (sha256 (utf8_encode message_json))"

definition id_or_hash :: "pylib \<Rightarrow> (bytes \<Rightarrow> bytes) \<Rightarrow> json option \<Rightarrow> string \<Rightarrow> string" where
  "id_or_hash lib sha256 field message_json =
     (case field of
        None \<Rightarrow> hash_message sha256 message_json
      | Some v \<Rightarrow> if py_truthy v then py_str lib v else hash_message sha256 message_json)"

definition parse_message_id ::
  "pylib \<Rightarrow> (bytes \<Rightarrow> bytes) \<Rightarrow> string \<Rightarrow> py_exception + string" where
  "parse_message_id lib sha256 message_json =
     (case json_loads lib message_json of
        None \<Rightarrow> Inl ValueError
      | Some raw \<Rightarrow>
          (case raw of
             JObj kv \<Rightarrow>
               if map_of kv ''payload'' \<noteq> None \<and> map_of kv ''action'' \<noteq> None
               then Inr (id_or_hash lib sha256 (map_of kv ''id'') message_json)
               else Inr (id_or_hash lib sha256 (map_of kv ''event_id'') message_json)
           | _ \<Rightarrow> Inl AttributeError))"

definition pay_sweeper_message_id :: "pylib \<Rightarrow> (bytes \<Rightarrow> bytes) \<Rightarrow> string \<Rightarrow> string" where
  "pay_sweeper_message_id lib sha256 msg =
     (let raw = (case json_loads lib msg of None \<Rightarrow> JObj [] | Some v \<Rightarrow> v)
      in id_or_hash lib sha256 (dict_get raw ''id'') msg)"

definition effective_max_try :: "int \<Rightarrow> json option \<Rightarrow> int" where
  "effective_max_try policy_max_retries max_attempts =
     (case max_attempts of
        None \<Rightarrow> policy_max_retries
      | Some JNull \<Rightarrow> policy_max_retries
      | Some v \<Rightarrow> (case int_of_json v of Inl e \<Rightarrow> policy_max_retries | Inr n \<Rightarrow> n))"

section \<open>Verification\<close>

subsection \<open>Properties of the signer and verifier\<close>

lemma hex_digit_ascii: "d < 16 \<Longrightarrow> (of_char (hex_digit d) :: nat) < 128"
  by (simp add: hex_digit_def)

lemma nibble_hi: "(of_char b :: nat) div 16 < 16"
  using nat_of_char_less_256 [of b] by (intro less_mult_imp_div_less) simp

lemma hex_byte_ascii: "is_ascii (hex_byte b)"
  by (simp add: hex_byte_def is_ascii_def hex_digit_ascii nibble_hi)

lemma hexdigest_ascii: "is_ascii (hexdigest bs)"
  using hex_byte_ascii by (induction bs) (simp_all add: hexdigest_def is_ascii_def)

lemma generate_signature_ascii: "is_ascii (generate_signature H p t s)"
  using hexdigest_ascii [of "H (utf8_encode s) (utf8_encode (t @ ''.'' @ p))"]
  by (simp add: generate_signature_def is_ascii_def)

lemma hex_digit_inj:
  assumes "hex_digit a = hex_digit b" "a < 16" "b < 16"
  shows "a = b"
proof -
  have "(of_char (hex_digit a) :: nat) = of_char (hex_digit b)"
    using assms(1) by simp
  then show ?thesis
    using assms(2,3) by (simp add: hex_digit_def split: if_splits)
qed

lemma hex_byte_inj:
  assumes "hex_byte a = hex_byte b"
  shows "a = b"
proof -
  have "(of_char a :: nat) div 16 = of_char b div 16" "(of_char a :: nat) mod 16 = of_char b mod 16"
    using assms hex_digit_inj [of "of_char a div 16" "of_char b div 16"]
      hex_digit_inj [of "of_char a mod 16" "of_char b mod 16"]
      nibble_hi [of a] nibble_hi [of b]
    by (simp_all add: hex_byte_def)
  then have "(of_char a :: nat) = of_char b"
    by (metis div_mult_mod_eq)
  then show ?thesis
    by simp
qed

lemma hexdigest_inj: "hexdigest a = hexdigest b \<Longrightarrow> a = b"
proof (induction a arbitrary: b)
  case Nil
  then show ?case
    by (cases b) (simp_all add: hexdigest_def hex_byte_def)
next
  case (Cons x xs)
  show ?case
  proof (cases b)
    case Nil
    with Cons.prems show ?thesis
      by (simp add: hexdigest_def hex_byte_def)
  next
    case (Cons y ys)
    have l: "length (hex_byte x) = length (hex_byte y)"
      by (simp add: hex_byte_def)
    from Cons.prems Cons have "hex_byte x @ hexdigest xs = hex_byte y @ hexdigest ys"
      by (simp add: hexdigest_def)
    with l have "hex_byte x = hex_byte y" "hexdigest xs = hexdigest ys"
      by simp_all
    with Cons.IH Cons show ?thesis
      using hex_byte_inj by blast
  qed
qed

lemma utf8_char_nonempty: "utf8_char c \<noteq> []"
  by (simp add: utf8_char_def Let_def)

lemma utf8_char_prefix:
  assumes "utf8_char c @ r = utf8_char d @ r'"
  shows "c = d \<and> r = r'"
proof -
  let ?k = "of_char c :: nat" and ?l = "of_char d :: nat"
  have kb: "?k < 256" and lb: "?l < 256"
    by (simp_all add: nat_of_char_less_256)
  consider (aa) "?k < 128" "?l < 128" | (ab) "?k < 128" "\<not> ?l < 128"
    | (ba) "\<not> ?k < 128" "?l < 128" | (bb) "\<not> ?k < 128" "\<not> ?l < 128"
    by blast
  then show ?thesis
  proof cases
    case aa
    with assms show ?thesis by (simp add: utf8_char_def Let_def)
  next
    case ab
    with assms have "c = char_of (192 + ?l div 64)"
      by (simp add: utf8_char_def Let_def)
    then have "?k = (192 + ?l div 64) mod 256"
      by (metis of_char_of)
    moreover have "?l div 64 < 4"
      using lb by (simp add: less_mult_imp_div_less)
    ultimately show ?thesis using ab by simp
  next
    case ba
    with assms have "d = char_of (192 + ?k div 64)"
      by (simp add: utf8_char_def Let_def)
    then have "?l = (192 + ?k div 64) mod 256"
      by (metis of_char_of)
    moreover have "?k div 64 < 4"
      using kb by (simp add: less_mult_imp_div_less)
    ultimately show ?thesis using ba by simp
  next
    case bb
    with assms have e: "(char_of (192 + ?k div 64) :: char) = char_of (192 + ?l div 64)"
      "(char_of (128 + ?k mod 64) :: char) = char_of (128 + ?l mod 64)" and r: "r = r'"
      by (simp_all add: utf8_char_def Let_def)
    from e have "(192 + ?k div 64) mod 256 = (192 + ?l div 64) mod 256"
      "(128 + ?k mod 64) mod 256 = (128 + ?l mod 64) mod 256"
      by (metis of_char_of)+
    moreover have "?k div 64 < 4" "?l div 64 < 4"
      using kb lb by (simp_all add: less_mult_imp_div_less)
    ultimately have "?k div 64 = ?l div 64" "?k mod 64 = ?l mod 64"
      by simp_all
    then have "?k = ?l"
      by (metis div_mult_mod_eq)
    with r show ?thesis by simp
  qed
qed

lemma utf8_encode_inj: "utf8_encode a = utf8_encode b \<Longrightarrow> a = b"
proof (induction a arbitrary: b)
  case Nil
  then show ?case
    using utf8_char_nonempty by (cases b) (simp_all add: utf8_encode_def)
next
  case (Cons x xs)
  show ?case
  proof (cases b)
    case Nil
    with Cons.prems show ?thesis
      using utf8_char_nonempty by (simp add: utf8_encode_def)
  next
    case (Cons y ys)
    with Cons.prems have "utf8_char x @ utf8_encode xs = utf8_char y @ utf8_encode ys"
      by (simp add: utf8_encode_def)
    then have "x = y \<and> utf8_encode xs = utf8_encode ys"
      by (rule utf8_char_prefix)
    with Cons.IH Cons show ?thesis
      by simp
  qed
qed

lemma py_int_S1: "py_int ''1700000000'' = Some 1700000000"
  by (simp add: py_int_def py_strip_def is_space_def parse_nat_def digit_of_def count_digits_def
      max_str_digits_def)

text \<open>
  C2.  For a timestamp text \<open>T\<close> that \<open>int\<close> reads as \<open>t\<close>: the signature that the
  signer makes over \<open>(P, T, S)\<close> verifies (result \<open>True\<close>) whenever the age
  \<open>now - t\<close> lies within the tolerance in either direction; an age beyond the tolerance
  is rejected with status 400 whatever the signature.  Within the tolerance, a payload
  \<open>P'\<close> other than the signed one, presented with the signature made for \<open>P\<close>, is
  rejected with status 401, provided that under the key no other message has the digest
  of the signed text \<open>T.P\<close>; and a presented signature other than the one made for
  \<open>P\<close> is rejected, with status 401 when it is ASCII and with status 500 when it is not
  (\<open>compare\_digest\<close> raises).
\<close>

theorem verify_signature_roundtrip:
  assumes "py_int T = Some t"
  shows "(\<bar>now - t\<bar> \<le> tol \<longrightarrow>
            verify_signature H now P (generate_signature H P T S) T S tol = Inr True) \<and>
         (\<bar>now - t\<bar> > tol \<longrightarrow>
            (\<exists>d. verify_signature H now P sg T S tol = Inl (HTTPException 400 d))) \<and>
         (\<bar>now - t\<bar> \<le> tol \<and> P' \<noteq> P \<and>
          (\<forall>m. m \<noteq> utf8_encode (T @ ''.'' @ P) \<longrightarrow>
                H (utf8_encode S) m \<noteq> H (utf8_encode S) (utf8_encode (T @ ''.'' @ P))) \<longrightarrow>
            verify_signature H now P' (generate_signature H P T S) T S tol =
              Inl (HTTPException 401 ''Invalid webhook signature'')) \<and>
         (\<bar>now - t\<bar> \<le> tol \<and> sg \<noteq> generate_signature H P T S \<longrightarrow>
            verify_signature H now P sg T S tol =
              (if is_ascii sg then Inl (HTTPException 401 ''Invalid webhook signature'')
               else Inl (HTTPException 500 ''Signature verification failed'')))"
proof (intro conjI impI)
  assume "\<bar>now - t\<bar> \<le> tol"
  then show "verify_signature H now P (generate_signature H P T S) T S tol = Inr True"
    using assms generate_signature_ascii [of H P T S]
    by (auto simp add: verify_signature_def compare_digest_def Let_def)
next
  assume "\<bar>now - t\<bar> > tol"
  then show "\<exists>d. verify_signature H now P sg T S tol = Inl (HTTPException 400 d)"
    using assms by (auto simp add: verify_signature_def Let_def)
next
  assume a: "\<bar>now - t\<bar> \<le> tol \<and> P' \<noteq> P \<and>
          (\<forall>m. m \<noteq> utf8_encode (T @ ''.'' @ P) \<longrightarrow>
                H (utf8_encode S) m \<noteq> H (utf8_encode S) (utf8_encode (T @ ''.'' @ P)))"
  then have "T @ ''.'' @ P' \<noteq> T @ ''.'' @ P"
    by simp
  then have "utf8_encode (T @ ''.'' @ P') \<noteq> utf8_encode (T @ ''.'' @ P)"
    using utf8_encode_inj by blast
  with a have "H (utf8_encode S) (utf8_encode (T @ ''.'' @ P')) \<noteq>
      H (utf8_encode S) (utf8_encode (T @ ''.'' @ P))"
    by blast
  then have "hexdigest (H (utf8_encode S) (utf8_encode (T @ ''.'' @ P'))) \<noteq>
      hexdigest (H (utf8_encode S) (utf8_encode (T @ ''.'' @ P)))"
    using hexdigest_inj by blast
  then have ne: "generate_signature H P T S \<noteq> generate_signature H P' T S"
    by (simp add: generate_signature_def)
  from a have "\<bar>now - t\<bar> \<le> tol"
    by simp
  then show "verify_signature H now P' (generate_signature H P T S) T S tol =
              Inl (HTTPException 401 ''Invalid webhook signature'')"
    using assms ne generate_signature_ascii [of H P T S] generate_signature_ascii [of H P' T S]
    by (auto simp add: verify_signature_def compare_digest_def Let_def)
next
  assume "\<bar>now - t\<bar> \<le> tol \<and> sg \<noteq> generate_signature H P T S"
  then show "verify_signature H now P sg T S tol =
              (if is_ascii sg then Inl (HTTPException 401 ''Invalid webhook signature'')
               else Inl (HTTPException 500 ''Signature verification failed''))"
    using assms generate_signature_ascii [of H P T S]
    by (auto simp add: verify_signature_def compare_digest_def Let_def)
qed

text \<open>
  Scenario S1 (timestamp \<open>1700000000\<close>, secret \<open>k\<close>, tolerance 300), with the key
  followed by the message standing in for the digest, which has no collisions:
  verification at \<open>now = 1700000060\<close> succeeds, at \<open>now = 1700001000\<close> it fails
  with status 400, the payload with \<open>b\<close> changed to 3 is rejected under the signature
  of the original, and so is the original under another signature.
\<close>

theorem verify_signature_roundtrip_witness:
  \<open>py_int ''1700000000'' = Some 1700000000 \<and>
   verify_signature (\<lambda>k m. k @ m) 1700000060 ''{"a":1,"b":2}''
     (generate_signature (\<lambda>k m. k @ m) ''{"a":1,"b":2}'' ''1700000000'' ''k'')
     ''1700000000'' ''k'' default_tolerance = Inr True \<and>
   (\<exists>d. verify_signature (\<lambda>k m. k @ m) 1700001000 ''{"a":1,"b":2}''
     (generate_signature (\<lambda>k m. k @ m) ''{"a":1,"b":2}'' ''1700000000'' ''k'')
     ''1700000000'' ''k'' default_tolerance = Inl (HTTPException 400 d)) \<and>
   verify_signature (\<lambda>k m. k @ m) 1700000060 ''{"a":1,"b":3}''
     (generate_signature (\<lambda>k m. k @ m) ''{"a":1,"b":2}'' ''1700000000'' ''k'')
     ''1700000000'' ''k'' default_tolerance =
       Inl (HTTPException 401 ''Invalid webhook signature'') \<and>
   verify_signature (\<lambda>k m. k @ m) 1700000060 ''{"a":1,"b":2}''
     ''sha256=00'' ''1700000000'' ''k'' default_tolerance =
       Inl (HTTPException 401 ''Invalid webhook signature'')\<close>
proof -
  have ne: \<open>''sha256=00'' \<noteq>
      generate_signature (\<lambda>k m. k @ m) ''{"a":1,"b":2}'' ''1700000000'' ''k''\<close>
    by (simp add: generate_signature_def hexdigest_def hex_byte_def utf8_encode_def utf8_char_def)
  have asc: "is_ascii ''sha256=00''"
    by (simp add: is_ascii_def)
  have pne: \<open>''{"a":1,"b":3}'' \<noteq> ''{"a":1,"b":2}''\<close>
    by simp
  have free: "\<forall>m. m \<noteq> utf8_encode (''1700000000'' @ ''.'' @ ''{\"a\":1,\"b\":2}'') \<longrightarrow>
      (\<lambda>k m. k @ m) (utf8_encode ''k'') m \<noteq>
      (\<lambda>k m. k @ m) (utf8_encode ''k'') (utf8_encode (''1700000000'' @ ''.'' @ ''{\"a\":1,\"b\":2}''))"
    by simp
  have t1: "\<bar>1700000060 - 1700000000\<bar> \<le> default_tolerance"
    and t2: "\<bar>1700001000 - 1700000000\<bar> > default_tolerance"
    by (simp_all add: default_tolerance_def)
  note th1 = verify_signature_roundtrip [OF py_int_S1, of 1700000060 default_tolerance
        "\<lambda>k m. k @ m" \<open>''{"a":1,"b":2}''\<close> "''k''" "''sha256=00''" \<open>''{"a":1,"b":3}''\<close>]
  note th2 = verify_signature_roundtrip [OF py_int_S1, of 1700001000 default_tolerance
        "\<lambda>k m. k @ m" \<open>''{"a":1,"b":2}''\<close> "''k''"
        \<open>generate_signature (\<lambda>k m. k @ m) ''{"a":1,"b":2}'' ''1700000000'' ''k''\<close>]
  have c1: \<open>verify_signature (\<lambda>k m. k @ m) 1700000060 ''{"a":1,"b":2}''
     (generate_signature (\<lambda>k m. k @ m) ''{"a":1,"b":2}'' ''1700000000'' ''k'')
     ''1700000000'' ''k'' default_tolerance = Inr True\<close>
    using th1 t1 by blast
  have c2: \<open>\<exists>d. verify_signature (\<lambda>k m. k @ m) 1700001000 ''{"a":1,"b":2}''
     (generate_signature (\<lambda>k m. k @ m) ''{"a":1,"b":2}'' ''1700000000'' ''k'')
     ''1700000000'' ''k'' default_tolerance = Inl (HTTPException 400 d)\<close>
    using th2 t2 by blast
  have c3: \<open>verify_signature (\<lambda>k m. k @ m) 1700000060 ''{"a":1,"b":3}''
     (generate_signature (\<lambda>k m. k @ m) ''{"a":1,"b":2}'' ''1700000000'' ''k'')
     ''1700000000'' ''k'' default_tolerance =
       Inl (HTTPException 401 ''Invalid webhook signature'')\<close>
    using th1 t1 pne free by blast
  have c4: \<open>verify_signature (\<lambda>k m. k @ m) 1700000060 ''{"a":1,"b":2}''
     ''sha256=00'' ''1700000000'' ''k'' default_tolerance =
       Inl (HTTPException 401 ''Invalid webhook signature'')\<close>
    using th1 t1 ne asc by simp
  show ?thesis
    using py_int_S1 c1 c2 c3 c4 by blast
qed

subsection \<open>Properties of the usage meter\<close>




























text \<open>
  An epoch of nine digits that has passed is not taken for passed by the script at a
  time of ten digits, because the comparison is one of strings.
\<close>

lemma lua_str_le_digit_count: "\<not> lua_str_le ''999999999'' ''1700000000.5''"
  by simp

text \<open>
  \<open>use\_feature\<close> hands the meter the text of an epoch, which is not empty, and a limit
  above 0.
\<close>

lemma str_nat_nonempty: "str_nat n \<noteq> []"
  by (subst str_nat.simps) simp

lemma str_int_nonempty: "str_int i \<noteq> []"
  by (simp add: str_int_def str_nat_nonempty)

lemma use_feature_calls_meter:
  assumes "plan_limits = Some limits" "limits f = Some l" "0 < l"
  shows "fst (snd (use_feature store db t reset_epoch plan_limits uid f delta)) =
           snd (atomic_usage_check store t uid f l delta (Some (str_int reset_epoch))) \<and>
         str_int reset_epoch \<noteq> []"
  using assms
  by (simp add: use_feature_def Let_def str_int_nonempty split: prod.splits sum.splits)

text \<open>
  Through the endpoint only a delta of at least 1 reaches the meter, and a denial by
  the meter is answered with status 500.
\<close>

lemma use_feature_endpoint_delta:
  assumes "fst (use_feature_endpoint store db t reset_epoch plan_limits uid req) \<noteq> Inl 422"
  shows "1 \<le> q_delta req \<and> length (q_feature_name req) \<le> 50"
proof (rule ccontr)
  assume "\<not> (1 \<le> q_delta req \<and> length (q_feature_name req) \<le> 50)"
  then have "\<not> usage_request_valid req"
    by (auto simp add: usage_request_valid_def)
  then have "fst (use_feature_endpoint store db t reset_epoch plan_limits uid req) = Inl 422"
    by (simp add: use_feature_endpoint_def)
  with assms show False
    by simp
qed

lemma use_feature_endpoint_denial:
  assumes "usage_request_valid req"
      and "use_feature store db t reset_epoch plan_limits uid (q_feature_name req) (q_delta req) =
             (Inr result, store', db')"
      and "\<not> u_success result"
  shows "use_feature_endpoint store db t reset_epoch plan_limits uid req = (Inl 500, store', db')"
  using assms by (simp add: use_feature_endpoint_def)

subsection \<open>Properties of the subscription state machine\<close>

lemma plans_sub_update [simp]: "plans (sub_update d i f) = plans d"
  by (simp add: sub_update_def split: option.splits)

lemma events_sub_update [simp]: "events (sub_update d i f) = events d"
  by (simp add: sub_update_def split: option.splits)

lemma inbox_sub_update [simp]: "inbox (sub_update d i f) = inbox d"
  by (simp add: sub_update_def split: option.splits)

lemma subscriptions_sub_update:
  "subscriptions (sub_update d i f) =
     (case subscriptions d i of None \<Rightarrow> subscriptions d | Some s \<Rightarrow> (subscriptions d)(i \<mapsto> f s))"
  by (simp add: sub_update_def split: option.splits)

lemma get_renewal_plan_sub_update [simp]:
  "get_renewal_plan (sub_update d i f) k = get_renewal_plan d k"
  by (simp add: get_renewal_plan_def split: option.splits)

lemma subscriptions_webhook_update [simp]: "subscriptions (webhook_update d i f) = subscriptions d"
  by (simp add: webhook_update_def)

lemma events_webhook_update [simp]: "events (webhook_update d i f) = events d"
  by (simp add: webhook_update_def)

lemma plans_webhook_update [simp]: "plans (webhook_update d i f) = plans d"
  by (simp add: webhook_update_def)

lemma subscriptions_mark [simp]:
  "subscriptions (case get_by_event_id d eid of None \<Rightarrow> d | Some w \<Rightarrow> mark_processed d now (w_id w))
     = subscriptions d"
  by (simp add: mark_processed_def split: option.splits)

lemma events_mark [simp]:
  "events (case get_by_event_id d eid of None \<Rightarrow> d | Some w \<Rightarrow> mark_processed d now (w_id w))
     = events d"
  by (simp add: mark_processed_def split: option.splits)

lemma plans_mark [simp]:
  "plans (case get_by_event_id d eid of None \<Rightarrow> d | Some w \<Rightarrow> mark_processed d now (w_id w))
     = plans d"
  by (simp add: mark_processed_def split: option.splits)

lemma working_commit [simp]: "working (commit s) = working s"
  by (simp add: commit_def)

lemma committed_commit [simp]: "committed (commit s) = working s"
  by (simp add: commit_def)

lemma process_webhook_event_success:
  assumes "subscriptions (working sess) (p_subscription_id payload) = Some sub"
      and "p_status payload = ''success''"
      and "handle_payment_success (working sess) now sub (p_transaction_id payload)
             (p_amount payload) = Inr d1"
  shows "process_webhook_event sess now eid payload =
           (True, commit (sess\<lparr>working :=
              (case get_by_event_id d1 eid of None \<Rightarrow> d1
               | Some w \<Rightarrow> mark_processed d1 now (w_id w))\<rparr>))"
  using assms by (simp add: process_webhook_event_def Let_def)

lemma process_webhook_event_failed:
  assumes "subscriptions (working sess) (p_subscription_id payload) = Some sub"
      and "p_status payload = ''failed''"
      and "handle_payment_failure (working sess) now sub (p_transaction_id payload)
             (p_amount payload) = Inr d1"
  shows "process_webhook_event sess now eid payload =
           (True, commit (sess\<lparr>working :=
              (case get_by_event_id d1 eid of None \<Rightarrow> d1
               | Some w \<Rightarrow> mark_processed d1 now (w_id w))\<rparr>))"
  using assms by (simp add: process_webhook_event_def Let_def)

lemma process_webhook_event_raised:
  assumes "subscriptions (working sess) (p_subscription_id payload) = Some sub"
      and "p_status payload = ''success''"
      and "handle_payment_success (working sess) now sub (p_transaction_id payload)
             (p_amount payload) = Inl e"
  shows "process_webhook_event sess now eid payload = (False, rollback sess)"
  using assms by (simp add: process_webhook_event_def Let_def)

lemma process_webhook_event_unknown:
  assumes "p_status payload \<noteq> ''success''" "p_status payload \<noteq> ''failed''"
  shows "process_webhook_event sess now eid payload = (False, sess)"
  using assms by (simp add: process_webhook_event_def Let_def split: option.splits)

lemma applied_handled:
  assumes "subscriptions (working sess) (p_subscription_id payload) = Some sub"
      and "(p_status payload = ''success'' \<and>
            handle_payment_success (working sess) now sub (p_transaction_id payload)
              (p_amount payload) = Inr d1) \<or>
           (p_status payload = ''failed'' \<and>
            handle_payment_failure (working sess) now sub (p_transaction_id payload)
              (p_amount payload) = Inr d1)"
      and "subscriptions d1 = (subscriptions (working sess))(s_id sub' \<mapsto> sub')"
      and "events d1 = events (working sess) @ evs"
      and "plans d1 = plans (working sess)"
  shows "applied sess (process_webhook_event sess now eid payload) sub' evs"
proof -
  have "process_webhook_event sess now eid payload =
           (True, commit (sess\<lparr>working :=
              (case get_by_event_id d1 eid of None \<Rightarrow> d1
               | Some w \<Rightarrow> mark_processed d1 now (w_id w))\<rparr>))"
    using assms(2) process_webhook_event_success [OF assms(1)]
      process_webhook_event_failed [OF assms(1)] by blast
  then show ?thesis
    using assms(3,4,5) by (simp add: applied_def)
qed

lemma extend_in_range:
  assumes "datetime_min \<le> e + (if billing_cycle pl = ''yearly'' then 365 * 86400 else 30 * 86400)"
      and "e + (if billing_cycle pl = ''yearly'' then 365 * 86400 else 30 * 86400) \<le> datetime_max"
  shows "extend_subscription pl e 1 =
           Inr (e + (if billing_cycle pl = ''yearly'' then 365 * 86400 else 30 * 86400))"
  using assms
  by (cases "billing_cycle pl = ''yearly''")
    (simp_all add: extend_subscription_def timedelta_days_def datetime_add_def)

lemma extend_out_of_range:
  assumes "e + (if billing_cycle pl = ''yearly'' then 365 * 86400 else 30 * 86400) < datetime_min \<or>
           datetime_max < e + (if billing_cycle pl = ''yearly'' then 365 * 86400 else 30 * 86400)"
  shows "extend_subscription pl e 1 = Inl OverflowError"
  using assms
  by (cases "billing_cycle pl = ''yearly''")
    (auto simp add: extend_subscription_def timedelta_days_def datetime_add_def)

lemma hs_pending:
  assumes "subscriptions d (s_id sub) = Some sub" "plans d (s_plan_id sub) = Some pl"
      and "s_status sub = ''pending''"
  shows "\<exists>d1. handle_payment_success d now sub (p_transaction_id payload) (p_amount payload) = Inr d1 \<and>
           subscriptions d1 = (subscriptions d)(s_id sub \<mapsto>
              sub\<lparr>s_status := (if is_trial_plan pl then ''trial'' else ''active'')\<rparr>) \<and>
           events d1 = events d @ [event_row sub payload ''payment_success'' None None] \<and>
           plans d1 = plans d"
  using assms
  by (simp add: handle_payment_success_def update_status_def sub_update_def add_event_def Let_def
      event_row_def)

lemma hs_past_due:
  assumes "subscriptions d (s_id sub) = Some sub"
      and "s_status sub = ''past_due''"
  shows "\<exists>d1. handle_payment_success d now sub (p_transaction_id payload) (p_amount payload) = Inr d1 \<and>
           subscriptions d1 = (subscriptions d)(s_id sub \<mapsto> sub\<lparr>s_status := ''active''\<rparr>) \<and>
           events d1 = events d @ [event_row sub payload ''payment_success'' None None] \<and>
           plans d1 = plans d"
  using assms
  by (simp add: handle_payment_success_def update_status_def sub_update_def add_event_def Let_def
      event_row_def)

lemma hs_active:
  assumes "subscriptions d (s_id sub) = Some sub" "plans d (s_plan_id sub) = Some pl"
      and "s_status sub = ''active''"
      and "extend_subscription pl (s_end_date sub) 1 = Inr ext"
  shows "\<exists>d1. handle_payment_success d now sub (p_transaction_id payload) (p_amount payload) = Inr d1 \<and>
           subscriptions d1 = (subscriptions d)(s_id sub \<mapsto> sub\<lparr>s_end_date := ext\<rparr>) \<and>
           events d1 = events d @ [event_row sub payload ''renewed'' None None] \<and>
           plans d1 = plans d"
  using assms
  by (simp add: handle_payment_success_def sub_update_def add_event_def Let_def event_row_def)

lemma hs_trial:
  assumes "subscriptions d (s_id sub) = Some sub" "plans d (s_plan_id sub) = Some pl"
      and "plan_id pl = s_plan_id sub"
      and "s_status sub = ''trial''"
      and "extend_subscription pl (s_end_date sub) 1 = Inr ext"
  shows "\<exists>d1. handle_payment_success d now sub (p_transaction_id payload) (p_amount payload) = Inr d1 \<and>
           (case get_renewal_plan d (s_plan_id sub) of
              Some rp \<Rightarrow>
                subscriptions d1 = (subscriptions d)(s_id sub \<mapsto>
                  sub\<lparr>s_end_date := ext, s_plan_id := plan_id rp, s_status := ''active''\<rparr>) \<and>
                events d1 = events d @
                  [event_row sub payload ''renewed'' (Some (s_plan_id sub)) (Some (plan_id rp))]
            | None \<Rightarrow>
                subscriptions d1 = (subscriptions d)(s_id sub \<mapsto> sub\<lparr>s_end_date := ext\<rparr>) \<and>
                events d1 = events d @ [event_row sub payload ''renewed'' None None]) \<and>
           plans d1 = plans d"
proof (cases "get_renewal_plan d (s_plan_id sub)")
  case None
  then have "get_renewal_plan (sub_update d (s_id sub) f) (s_plan_id sub) = None" for f
    by simp
  with assms None show ?thesis
    by (simp add: handle_payment_success_def add_event_def Let_def event_row_def
        subscriptions_sub_update)
next
  case (Some rp)
  then have "get_renewal_plan (sub_update d (s_id sub) f) (s_plan_id sub) = Some rp" for f
    by simp
  with assms Some show ?thesis
    by (simp add: handle_payment_success_def add_event_def Let_def event_row_def
        subscriptions_sub_update)
qed

lemma hs_overflow:
  assumes "plans d (s_plan_id sub) = Some pl"
      and "s_status sub = ''active'' \<or> s_status sub = ''trial''"
      and "extend_subscription pl (s_end_date sub) 1 = Inl e"
  shows "handle_payment_success d now sub tx amount = Inl e"
  using assms by (auto simp add: handle_payment_success_def)

lemma hs_other:
  assumes "s_status sub \<noteq> ''pending''" "s_status sub \<noteq> ''past_due''"
      and "s_status sub \<noteq> ''active''" "s_status sub \<noteq> ''trial''"
  shows "handle_payment_success d now sub tx amount = Inr d"
  using assms by (simp add: handle_payment_success_def)

lemma hf_cases:
  assumes "subscriptions d (s_id sub) = Some sub"
  shows "\<exists>d1. handle_payment_failure d now sub (p_transaction_id payload) (p_amount payload) = Inr d1 \<and>
           subscriptions d1 = (subscriptions d)(s_id sub \<mapsto>
              (if s_status sub = ''active'' \<or> s_status sub = ''trial''
               then sub\<lparr>s_status := ''revoked''\<rparr> else sub)) \<and>
           events d1 = events d @ [event_row sub payload ''payment_failed'' None None] \<and>
           plans d1 = plans d"
  using assms
  by (auto simp add: handle_payment_failure_def update_status_def sub_update_def add_event_def
      Let_def event_row_def)


text \<open>
  C1, as the code has it.  An event for an existing subscription whose plan row exists
  has one of the following outcomes, and the cases cover every pair of a payment status
  and a subscription status.
  \<^item> \<open>success\<close> on \<open>pending\<close>: the status becomes \<open>trial\<close> for a trial plan and
    \<open>active\<close> otherwise, and one \<open>payment\_success\<close> event is appended.
  \<^item> \<open>success\<close> on \<open>past\_due\<close>: the status becomes \<open>active\<close>, with one
    \<open>payment\_success\<close> event.
  \<^item> \<open>success\<close> on \<open>active\<close>: the status stays, \<open>end\_date\<close> grows by 365 days of
    86400 seconds for a yearly plan and by 30 days otherwise, with one \<open>renewed\<close> event.
  \<^item> \<open>success\<close> on \<open>trial\<close>: the same extension; when \<open>get\_renewal\_plan\<close> finds a
    renewal plan the subscription moves to it and becomes \<open>active\<close>, and the event
    names the old and the new plan; otherwise it stays \<open>trial\<close>.
  \<^item> \<open>success\<close> on \<open>active\<close> or \<open>trial\<close> whose extended \<open>end\_date\<close> is not a
    \<open>datetime\<close>: the call returns \<open>False\<close> and the transaction is rolled back.
  \<^item> \<open>success\<close> on any other status (\<open>cancelled\<close>, \<open>revoked\<close>): the call returns
    \<open>True\<close> and commits, nothing changes and no event is appended.
  \<^item> \<open>failed\<close> on \<open>pending\<close>: nothing changes but one \<open>payment\_failed\<close> event.
  \<^item> \<open>failed\<close> on \<open>active\<close> or \<open>trial\<close>: the status becomes \<open>revoked\<close>, with one
    \<open>payment\_failed\<close> event.
  \<^item> \<open>failed\<close> on any other status: nothing changes but one \<open>payment\_failed\<close> event.
  \<^item> any other payment status: the call returns \<open>False\<close> and leaves the session as
    it was.
\<close>

theorem subscription_transition_table:
  assumes sub: "subscriptions (working sess) (p_subscription_id payload) = Some sub"
      and sid: "s_id sub = p_subscription_id payload"
      and pl: "plans (working sess) (s_plan_id sub) = Some pl"
      and plid: "plan_id pl = s_plan_id sub"
      and ext: "ext = s_end_date sub +
                  (if billing_cycle pl = ''yearly'' then 365 * 86400 else 30 * 86400)"
      and res: "res = process_webhook_event sess now eid payload"
  shows "(p_status payload = ''success'' \<and> s_status sub = ''pending'' \<longrightarrow>
            applied sess res
              (sub\<lparr>s_status := (if is_trial_plan pl then ''trial'' else ''active'')\<rparr>)
              [event_row sub payload ''payment_success'' None None]) \<and>
         (p_status payload = ''success'' \<and> s_status sub = ''past_due'' \<longrightarrow>
            applied sess res (sub\<lparr>s_status := ''active''\<rparr>)
              [event_row sub payload ''payment_success'' None None]) \<and>
         (p_status payload = ''success'' \<and> s_status sub = ''active'' \<and>
          datetime_min \<le> ext \<and> ext \<le> datetime_max \<longrightarrow>
            applied sess res (sub\<lparr>s_end_date := ext\<rparr>)
              [event_row sub payload ''renewed'' None None]) \<and>
         (p_status payload = ''success'' \<and> s_status sub = ''trial'' \<and>
          datetime_min \<le> ext \<and> ext \<le> datetime_max \<longrightarrow>
            (case get_renewal_plan (working sess) (s_plan_id sub) of
               Some rp \<Rightarrow>
                 applied sess res
                   (sub\<lparr>s_end_date := ext, s_plan_id := plan_id rp, s_status := ''active''\<rparr>)
                   [event_row sub payload ''renewed'' (Some (s_plan_id sub)) (Some (plan_id rp))]
             | None \<Rightarrow>
                 applied sess res (sub\<lparr>s_end_date := ext\<rparr>)
                   [event_row sub payload ''renewed'' None None])) \<and>
         (p_status payload = ''success'' \<and> (s_status sub = ''active'' \<or> s_status sub = ''trial'') \<and>
          (ext < datetime_min \<or> datetime_max < ext) \<longrightarrow>
            res = (False, rollback sess)) \<and>
         (p_status payload = ''success'' \<and>
          s_status sub \<notin> {''pending'', ''past_due'', ''active'', ''trial''} \<longrightarrow>
            applied sess res sub []) \<and>
         (p_status payload = ''failed'' \<and> s_status sub = ''pending'' \<longrightarrow>
            applied sess res sub [event_row sub payload ''payment_failed'' None None]) \<and>
         (p_status payload = ''failed'' \<and> (s_status sub = ''active'' \<or> s_status sub = ''trial'') \<longrightarrow>
            applied sess res (sub\<lparr>s_status := ''revoked''\<rparr>)
              [event_row sub payload ''payment_failed'' None None]) \<and>
         (p_status payload = ''failed'' \<and> s_status sub \<notin> {''pending'', ''active'', ''trial''} \<longrightarrow>
            applied sess res sub [event_row sub payload ''payment_failed'' None None]) \<and>
         (p_status payload \<notin> {''success'', ''failed''} \<longrightarrow> res = (False, sess))"
proof -
  have sub': "subscriptions (working sess) (s_id sub) = Some sub"
    using sub sid by simp
  have idem: "(subscriptions (working sess))(s_id sub \<mapsto> sub) = subscriptions (working sess)"
    using sub' by (rule map_upd_triv)
  note app = applied_handled [OF sub, of now _ _ _ eid, folded res]
  have c1: "applied sess res
              (sub\<lparr>s_status := (if is_trial_plan pl then ''trial'' else ''active'')\<rparr>)
              [event_row sub payload ''payment_success'' None None]"
    if st: "p_status payload = ''success''" and ss: "s_status sub = ''pending''"
  proof -
    obtain d1 where "handle_payment_success (working sess) now sub (p_transaction_id payload)
          (p_amount payload) = Inr d1"
      and "subscriptions d1 = (subscriptions (working sess))(s_id sub \<mapsto>
              sub\<lparr>s_status := (if is_trial_plan pl then ''trial'' else ''active'')\<rparr>)"
      and "events d1 = events (working sess) @ [event_row sub payload ''payment_success'' None None]"
      and "plans d1 = plans (working sess)"
      using hs_pending [OF sub' pl ss] by blast
    with st show ?thesis
      by (intro app [of d1]) simp_all
  qed
  have c2: "applied sess res (sub\<lparr>s_status := ''active''\<rparr>)
              [event_row sub payload ''payment_success'' None None]"
    if st: "p_status payload = ''success''" and ss: "s_status sub = ''past_due''"
  proof -
    obtain d1 where "handle_payment_success (working sess) now sub (p_transaction_id payload)
          (p_amount payload) = Inr d1"
      and "subscriptions d1 = (subscriptions (working sess))(s_id sub \<mapsto> sub\<lparr>s_status := ''active''\<rparr>)"
      and "events d1 = events (working sess) @ [event_row sub payload ''payment_success'' None None]"
      and "plans d1 = plans (working sess)"
      using hs_past_due [OF sub' ss] by blast
    with st show ?thesis
      by (intro app [of d1]) simp_all
  qed
  have inr: "extend_subscription pl (s_end_date sub) 1 = Inr ext"
    if "datetime_min \<le> ext" "ext \<le> datetime_max"
    using that extend_in_range [of "s_end_date sub" pl] unfolding ext by simp
  have c3: "applied sess res (sub\<lparr>s_end_date := ext\<rparr>)
              [event_row sub payload ''renewed'' None None]"
    if st: "p_status payload = ''success''" and ss: "s_status sub = ''active''"
      and rg: "datetime_min \<le> ext" "ext \<le> datetime_max"
  proof -
    obtain d1 where "handle_payment_success (working sess) now sub (p_transaction_id payload)
          (p_amount payload) = Inr d1"
      and "subscriptions d1 = (subscriptions (working sess))(s_id sub \<mapsto> sub\<lparr>s_end_date := ext\<rparr>)"
      and "events d1 = events (working sess) @ [event_row sub payload ''renewed'' None None]"
      and "plans d1 = plans (working sess)"
      using hs_active [OF sub' pl ss inr [OF rg]] by blast
    with st show ?thesis
      by (intro app [of d1]) simp_all
  qed
  have c4: "(case get_renewal_plan (working sess) (s_plan_id sub) of
               Some rp \<Rightarrow>
                 applied sess res
                   (sub\<lparr>s_end_date := ext, s_plan_id := plan_id rp, s_status := ''active''\<rparr>)
                   [event_row sub payload ''renewed'' (Some (s_plan_id sub)) (Some (plan_id rp))]
             | None \<Rightarrow>
                 applied sess res (sub\<lparr>s_end_date := ext\<rparr>)
                   [event_row sub payload ''renewed'' None None])"
    if st: "p_status payload = ''success''" and ss: "s_status sub = ''trial''"
      and rg: "datetime_min \<le> ext" "ext \<le> datetime_max"
  proof -
    obtain d1 where h: "handle_payment_success (working sess) now sub (p_transaction_id payload)
          (p_amount payload) = Inr d1"
      and c: "(case get_renewal_plan (working sess) (s_plan_id sub) of
              Some rp \<Rightarrow>
                subscriptions d1 = (subscriptions (working sess))(s_id sub \<mapsto>
                  sub\<lparr>s_end_date := ext, s_plan_id := plan_id rp, s_status := ''active''\<rparr>) \<and>
                events d1 = events (working sess) @
                  [event_row sub payload ''renewed'' (Some (s_plan_id sub)) (Some (plan_id rp))]
            | None \<Rightarrow>
                subscriptions d1 = (subscriptions (working sess))(s_id sub \<mapsto> sub\<lparr>s_end_date := ext\<rparr>) \<and>
                events d1 = events (working sess) @ [event_row sub payload ''renewed'' None None])"
      and p: "plans d1 = plans (working sess)"
      using hs_trial [OF sub' pl plid ss inr [OF rg]] by blast
    show ?thesis
    proof (cases "get_renewal_plan (working sess) (s_plan_id sub)")
      case None
      with c h p st have "applied sess res (sub\<lparr>s_end_date := ext\<rparr>)
                   [event_row sub payload ''renewed'' None None]"
        by (intro app [of d1]) simp_all
      with None show ?thesis by simp
    next
      case (Some rp)
      with c h p st have "applied sess res
                   (sub\<lparr>s_end_date := ext, s_plan_id := plan_id rp, s_status := ''active''\<rparr>)
                   [event_row sub payload ''renewed'' (Some (s_plan_id sub)) (Some (plan_id rp))]"
        by (intro app [of d1]) simp_all
      with Some show ?thesis by simp
    qed
  qed
  have c5: "res = (False, rollback sess)"
    if st: "p_status payload = ''success''"
      and ss: "s_status sub = ''active'' \<or> s_status sub = ''trial''"
      and rg: "ext < datetime_min \<or> datetime_max < ext"
  proof -
    have "extend_subscription pl (s_end_date sub) 1 = Inl OverflowError"
      using rg extend_out_of_range [of "s_end_date sub" pl] unfolding ext by simp
    then have "handle_payment_success (working sess) now sub (p_transaction_id payload)
          (p_amount payload) = Inl OverflowError"
      using hs_overflow [OF pl ss] by simp
    then show ?thesis
      unfolding res using process_webhook_event_raised [OF sub st] by simp
  qed
  have c6: "applied sess res sub []"
    if st: "p_status payload = ''success''"
      and ss: "s_status sub \<notin> {''pending'', ''past_due'', ''active'', ''trial''}"
  proof -
    have "handle_payment_success (working sess) now sub (p_transaction_id payload)
          (p_amount payload) = Inr (working sess)"
      using ss by (intro hs_other) simp_all
    with st idem show ?thesis
      by (intro app [of "working sess"]) simp_all
  qed
  obtain d1 where hf: "handle_payment_failure (working sess) now sub (p_transaction_id payload)
          (p_amount payload) = Inr d1"
      and fs: "subscriptions d1 = (subscriptions (working sess))(s_id sub \<mapsto>
              (if s_status sub = ''active'' \<or> s_status sub = ''trial''
               then sub\<lparr>s_status := ''revoked''\<rparr> else sub))"
      and fe: "events d1 = events (working sess) @ [event_row sub payload ''payment_failed'' None None]"
      and fp: "plans d1 = plans (working sess)"
    using hf_cases [OF sub'] by blast
  have c7: "applied sess res sub [event_row sub payload ''payment_failed'' None None]"
    if st: "p_status payload = ''failed''"
      and ss: "s_status sub \<noteq> ''active''" "s_status sub \<noteq> ''trial''"
    using st ss hf fs fe fp by (intro app [of d1]) simp_all
  have c8: "applied sess res (sub\<lparr>s_status := ''revoked''\<rparr>)
              [event_row sub payload ''payment_failed'' None None]"
    if st: "p_status payload = ''failed''"
      and ss: "s_status sub = ''active'' \<or> s_status sub = ''trial''"
    using st ss hf fs fe fp by (intro app [of d1]) auto
  have c9: "res = (False, sess)" if "p_status payload \<notin> {''success'', ''failed''}"
    unfolding res using that by (intro process_webhook_event_unknown) simp_all
  show ?thesis
    using c1 c2 c3 c4 c5 c6 c7 c8 c9 by (intro conjI impI) simp_all
qed


text \<open>
  The claim fails where it says that every applied event appends one
  \<open>SubscriptionEvent\<close>: for the sample subscription 7 in status \<open>cancelled\<close>, a
  \<open>success\<close> event is applied (\<open>process\_webhook\_event\<close> returns \<open>True\<close> and commits,
  and \<open>process\_payment\_webhook\<close> answers \<open>processed\<close>), yet the session is left as it
  was and the list of events stays empty.
\<close>

theorem success_on_cancelled_appends_no_event:
  "process_webhook_event (sample_session ''cancelled'' 1) 100 ''test-event-123''
      (sample_webhook_payload ''success'' 7) = (True, sample_session ''cancelled'' 1) \<and>
   events (working (sample_session ''cancelled'' 1)) = [] \<and>
   fst (process_payment_webhook (sample_session ''cancelled'' 1) 100
          (sample_webhook_payload ''success'' 7)) =
     Inr \<lparr>resp_status = ''processed'', resp_message = ''Webhook processed successfully'',
          resp_event_id = Some ''test-event-123''\<rparr> \<and>
   events (working (snd (process_payment_webhook (sample_session ''cancelled'' 1) 100
          (sample_webhook_payload ''success'' 7)))) = [] \<and>
   subscriptions (working (snd (process_payment_webhook (sample_session ''cancelled'' 1) 100
          (sample_webhook_payload ''success'' 7)))) 7 = Some (sample_subscription ''cancelled'' 1)"
  by (simp add: process_payment_webhook_def process_webhook_event_def handle_payment_success_def
      sample_session_def sample_db_def sample_webhook_payload_def sample_subscription_def
      get_by_event_id_def create_webhook_request_def mark_processed_def webhook_update_def
      new_webhook_id_def commit_def rollback_def Let_def)

text \<open>
  Scenario S2 (subscription 7 \<open>pending\<close> on the basic plan, event \<open>success\<close>): it
  becomes \<open>active\<close> with one \<open>payment\_success\<close> event.  A \<open>trial\<close> subscription on the
  trial plan becomes \<open>active\<close> on plan 1 with 30 more days and one \<open>renewed\<close> event that
  names plans 5 and 1.  A \<open>success\<close> on \<open>cancelled\<close> is applied without any event, a
  \<open>failed\<close> on \<open>active\<close> revokes, and an unknown payment status is refused.
\<close>

theorem subscription_transition_table_witness:
  "applied (sample_session ''pending'' 1)
     (process_webhook_event (sample_session ''pending'' 1) 100 ''test-event-123''
        (sample_webhook_payload ''success'' 7))
     ((sample_subscription ''pending'' 1)\<lparr>s_status := ''active''\<rparr>)
     [event_row (sample_subscription ''pending'' 1) (sample_webhook_payload ''success'' 7)
        ''payment_success'' None None] \<and>
   applied (sample_session ''trial'' 5)
     (process_webhook_event (sample_session ''trial'' 5) 100 ''test-event-123''
        (sample_webhook_payload ''success'' 7))
     ((sample_subscription ''trial'' 5)\<lparr>s_end_date := 1705184000, s_plan_id := 1,
        s_status := ''active''\<rparr>)
     [event_row (sample_subscription ''trial'' 5) (sample_webhook_payload ''success'' 7)
        ''renewed'' (Some 5) (Some 1)] \<and>
   applied (sample_session ''cancelled'' 1)
     (process_webhook_event (sample_session ''cancelled'' 1) 100 ''test-event-123''
        (sample_webhook_payload ''success'' 7))
     (sample_subscription ''cancelled'' 1) [] \<and>
   applied (sample_session ''active'' 1)
     (process_webhook_event (sample_session ''active'' 1) 100 ''test-event-123''
        (sample_webhook_payload ''failed'' 7))
     ((sample_subscription ''active'' 1)\<lparr>s_status := ''revoked''\<rparr>)
     [event_row (sample_subscription ''active'' 1) (sample_webhook_payload ''failed'' 7)
        ''payment_failed'' None None] \<and>
   process_webhook_event (sample_session ''active'' 1) 100 ''test-event-123''
        (sample_webhook_payload ''refunded'' 7) = (False, sample_session ''active'' 1)"
proof -
  have a: "subscriptions (working (sample_session st pid))
      (p_subscription_id (sample_webhook_payload ev 7)) = Some (sample_subscription st pid)"
    for st pid ev
    by (simp add: sample_session_def sample_db_def sample_webhook_payload_def)
  have b: "s_id (sample_subscription st pid) = p_subscription_id (sample_webhook_payload ev 7)"
    for st pid ev
    by (simp add: sample_subscription_def sample_webhook_payload_def)
  have c1: "plans (working (sample_session st 1)) (s_plan_id (sample_subscription st 1))
      = Some sample_plan" for st
    by (simp add: sample_session_def sample_db_def sample_subscription_def)
  have c2: "plans (working (sample_session st 5)) (s_plan_id (sample_subscription st 5))
      = Some sample_trial_plan" for st
    by (simp add: sample_session_def sample_db_def sample_subscription_def)
  have d1: "plan_id sample_plan = s_plan_id (sample_subscription st 1)" for st
    by (simp add: sample_plan_def sample_subscription_def)
  have d2: "plan_id sample_trial_plan = s_plan_id (sample_subscription st 5)" for st
    by (simp add: sample_trial_plan_def sample_subscription_def)
  have e1: "\<not> is_trial_plan sample_plan"
    by (simp add: is_trial_plan_def sample_plan_def)
  have e2: "get_renewal_plan (working (sample_session ''trial'' 5))
      (s_plan_id (sample_subscription ''trial'' 5)) = Some sample_plan"
    by (simp add: get_renewal_plan_def sample_session_def sample_db_def sample_subscription_def
        is_trial_plan_def trial_renewal_plan_id_def sample_trial_plan_def int_of_str_json_def)
  have f: "p_status (sample_webhook_payload ev 7) = ev"
    "s_status (sample_subscription st pid) = st"
    "s_plan_id (sample_subscription st pid) = pid"
    "s_end_date (sample_subscription st pid) = 1702592000"
    "billing_cycle sample_trial_plan = ''monthly''"
    "billing_cycle sample_plan = ''monthly''"
    "plan_id sample_plan = 1" for st pid ev
    by (simp_all add: sample_webhook_payload_def sample_subscription_def sample_trial_plan_def
        sample_plan_def)
  have g: "datetime_min \<le> 1705184000" "1705184000 \<le> datetime_max"
    by (simp_all add: datetime_min_def datetime_max_def)
  note t1 = subscription_transition_table [OF a [of "''pending''" 1 "''success''"]
      b [of "''pending''" 1 "''success''"] c1 [of "''pending''"] d1 [of "''pending''"] refl refl,
      of 100 "''test-event-123''"]
  note t2 = subscription_transition_table [OF a [of "''trial''" 5 "''success''"]
      b [of "''trial''" 5 "''success''"] c2 [of "''trial''"] d2 [of "''trial''"] refl refl,
      of 100 "''test-event-123''"]
  note t3 = subscription_transition_table [OF a [of "''cancelled''" 1 "''success''"]
      b [of "''cancelled''" 1 "''success''"] c1 [of "''cancelled''"] d1 [of "''cancelled''"] refl refl,
      of 100 "''test-event-123''"]
  note t4 = subscription_transition_table [OF a [of "''active''" 1 "''failed''"]
      b [of "''active''" 1 "''failed''"] c1 [of "''active''"] d1 [of "''active''"] refl refl,
      of 100 "''test-event-123''"]
  note t5 = subscription_transition_table [OF a [of "''active''" 1 "''refunded''"]
      b [of "''active''" 1 "''refunded''"] c1 [of "''active''"] d1 [of "''active''"] refl refl,
      of 100 "''test-event-123''"]
  have w1: "applied (sample_session ''pending'' 1)
     (process_webhook_event (sample_session ''pending'' 1) 100 ''test-event-123''
        (sample_webhook_payload ''success'' 7))
     ((sample_subscription ''pending'' 1)\<lparr>s_status := ''active''\<rparr>)
     [event_row (sample_subscription ''pending'' 1) (sample_webhook_payload ''success'' 7)
        ''payment_success'' None None]"
    using t1 e1 by (simp add: f)
  have w2: "applied (sample_session ''trial'' 5)
     (process_webhook_event (sample_session ''trial'' 5) 100 ''test-event-123''
        (sample_webhook_payload ''success'' 7))
     ((sample_subscription ''trial'' 5)\<lparr>s_end_date := 1705184000, s_plan_id := 1,
        s_status := ''active''\<rparr>)
     [event_row (sample_subscription ''trial'' 5) (sample_webhook_payload ''success'' 7)
        ''renewed'' (Some 5) (Some 1)]"
    using t2 e2 g by (simp add: f)
  have w3: "applied (sample_session ''cancelled'' 1)
     (process_webhook_event (sample_session ''cancelled'' 1) 100 ''test-event-123''
        (sample_webhook_payload ''success'' 7))
     (sample_subscription ''cancelled'' 1) []"
    using t3 by (simp add: f)
  have w4: "applied (sample_session ''active'' 1)
     (process_webhook_event (sample_session ''active'' 1) 100 ''test-event-123''
        (sample_webhook_payload ''failed'' 7))
     ((sample_subscription ''active'' 1)\<lparr>s_status := ''revoked''\<rparr>)
     [event_row (sample_subscription ''active'' 1) (sample_webhook_payload ''failed'' 7)
        ''payment_failed'' None None]"
    using t4 by (simp add: f)
  have w5: "process_webhook_event (sample_session ''active'' 1) 100 ''test-event-123''
        (sample_webhook_payload ''refunded'' 7) = (False, sample_session ''active'' 1)"
    using t5 by (simp add: f)
  show ?thesis
    using w1 w2 w3 w4 w5 by blast
qed

text \<open>
  The renewal plan that \<open>get\_renewal\_plan\<close> finds for a trial plan is the plan whose
  key the feature \<open>renewal\_plan\<close> of the trial plan gives.
\<close>

lemma get_renewal_plan_configured:
  assumes "plans d k = Some tp" "features tp = JObj kv"
      and "map_of kv ''trial'' = Some (JBool True)"
      and "map_of kv ''renewal_plan'' = Some (JInt n)"
  shows "get_renewal_plan d k = plans d n"
  using assms
  by (simp add: get_renewal_plan_def is_trial_plan_def trial_renewal_plan_id_def
      int_of_str_json_def split: option.splits)

subsection \<open>Properties of the webhook inbox\<close>

lemma inbox_handle_payment_success:
  "handle_payment_success d now sub tx amount = Inr d1 \<Longrightarrow> inbox d1 = inbox d"
  by (auto simp add: handle_payment_success_def update_status_def add_event_def Let_def
      split: option.splits if_splits prod.splits sum.splits)

lemma inbox_handle_payment_failure:
  "handle_payment_failure d now sub tx amount = Inr d1 \<Longrightarrow> inbox d1 = inbox d"
  by (auto simp add: handle_payment_failure_def update_status_def add_event_def Let_def
      split: if_splits)

lemma find_map_event_id:
  assumes "\<And>w. w_event_id (g w) = w_event_id w"
  shows "find (\<lambda>w. w_event_id w = eid) (map g xs) = map_option g (find (\<lambda>w. w_event_id w = eid) xs)"
  using assms by (induction xs) simp_all

lemma filter_map_event_id:
  assumes "\<And>w. w_event_id (g w) = w_event_id w"
  shows "length (filter (\<lambda>w. w_event_id w = eid) (map g xs)) =
         length (filter (\<lambda>w. w_event_id w = eid) xs)"
  using assms by (induction xs) simp_all

lemma find_None_filter: "find P xs = None \<Longrightarrow> filter P xs = []"
  by (induction xs) (auto split: if_splits)

lemma find_Some_filter: "find P xs = Some x \<Longrightarrow> 1 \<le> length (filter P xs)"
  by (induction xs) (auto split: if_splits)

lemma process_webhook_event_True:
  assumes "process_webhook_event s now eid payload = (True, s')"
  shows "\<exists>d1. inbox d1 = inbox (working s) \<and>
           s' = commit (s\<lparr>working :=
              (case get_by_event_id d1 eid of None \<Rightarrow> d1
               | Some w \<Rightarrow> mark_processed d1 now (w_id w))\<rparr>)"
  using assms
  by (auto simp add: process_webhook_event_def Let_def
      dest: inbox_handle_payment_success inbox_handle_payment_failure
      split: option.splits if_splits sum.splits)

lemma marked_row_processed:
  assumes "get_by_event_id d eid = Some w"
  shows "\<exists>w'. get_by_event_id (mark_processed d now (w_id w)) eid = Some w' \<and> w_processed w'"
proof -
  let ?g = "\<lambda>r. if w_id r = w_id w then r\<lparr>w_processed := True, w_processed_at := Some now\<rparr> else r"
  have "find (\<lambda>r. w_event_id r = eid) (map ?g (inbox d)) =
        map_option ?g (find (\<lambda>r. w_event_id r = eid) (inbox d))"
    by (rule find_map_event_id) simp
  then show ?thesis
    using assms by (simp add: get_by_event_id_def mark_processed_def webhook_update_def)
qed

lemma marked_count:
  "length (filter (\<lambda>r. w_event_id r = eid) (inbox (mark_processed d now i))) =
   length (filter (\<lambda>r. w_event_id r = eid) (inbox d))"
proof -
  let ?g = "\<lambda>r. if w_id r = i then r\<lparr>w_processed := True, w_processed_at := Some now\<rparr> else r"
  have "inbox (mark_processed d now i) = map ?g (inbox d)"
    by (simp add: mark_processed_def webhook_update_def)
  moreover have "length (filter (\<lambda>r. w_event_id r = eid) (map ?g (inbox d))) =
         length (filter (\<lambda>r. w_event_id r = eid) (inbox d))"
    by (rule filter_map_event_id) simp
  ultimately show ?thesis by (simp only:)
qed

lemma process_payment_webhook_duplicate:
  assumes "get_by_event_id (working sess) (p_event_id payload) = Some w" and "w_processed w"
  shows "process_payment_webhook sess now payload =
           (Inr \<lparr>resp_status = ''duplicate'', resp_message = ''Event already processed'',
                   resp_event_id = Some (p_event_id payload)\<rparr>, sess)"
  using assms by (simp add: process_payment_webhook_def)

lemma process_payment_webhook_processed:
  assumes run: "process_payment_webhook sess now payload = (Inr r1, sess1)"
      and st: "resp_status r1 = ''processed''"
      and uniq: "length (filter (\<lambda>r. w_event_id r = p_event_id payload) (inbox (working sess))) \<le> 1"
  shows "committed sess1 = working sess1 \<and>
         (\<exists>w'. get_by_event_id (working sess1) (p_event_id payload) = Some w' \<and> w_processed w') \<and>
         length (filter (\<lambda>r. w_event_id r = p_event_id payload) (inbox (working sess1))) = 1"
proof -
  let ?eid = "p_event_id payload"
  let ?P = "\<lambda>r. w_event_id r = ?eid"
  define sessA where "sessA =
     (case get_by_event_id (working sess) ?eid of
        Some w \<Rightarrow> sess\<lparr>working :=
                        webhook_update (working sess) (w_id w) (\<lambda>r. r\<lparr>w_payload := payload\<rparr>)\<rparr>
      | None \<Rightarrow> sess\<lparr>working := create_webhook_request (working sess) ?eid payload\<rparr>)"
  have notdup: "\<not> (case get_by_event_id (working sess) ?eid of None \<Rightarrow> False | Some w \<Rightarrow> w_processed w)"
    using run st by (auto simp add: process_payment_webhook_def)
  obtain s2 where pwe: "process_webhook_event sessA now ?eid payload = (True, s2)"
    and s1: "sess1 = commit s2"
    using run notdup
    by (auto simp add: process_payment_webhook_def Let_def sessA_def split: prod.splits if_splits)
  have cntA: "length (filter ?P (inbox (working sessA))) = 1"
  proof (cases "get_by_event_id (working sess) ?eid")
    case None
    then have "filter ?P (inbox (working sess)) = []"
      by (simp add: get_by_event_id_def find_None_filter)
    with None show ?thesis
      by (simp add: sessA_def create_webhook_request_def)
  next
    case (Some w)
    then have "1 \<le> length (filter ?P (inbox (working sess)))"
      unfolding get_by_event_id_def by (rule find_Some_filter)
    with uniq have one: "length (filter ?P (inbox (working sess))) = 1" by simp
    let ?g = "\<lambda>r. if w_id r = w_id w then r\<lparr>w_payload := payload\<rparr> else r"
    have e: "length (filter ?P (map ?g (inbox (working sess)))) = length (filter ?P (inbox (working sess)))"
      by (rule filter_map_event_id) simp
    have inboxA: "inbox (working sessA) = map ?g (inbox (working sess))"
      using Some by (simp add: sessA_def webhook_update_def)
    show ?thesis
      unfolding inboxA e by (rule one)
  qed
  have "\<exists>wA. get_by_event_id (working sessA) ?eid = Some wA"
  proof (cases "find ?P (inbox (working sessA))")
    case None
    then have "filter ?P (inbox (working sessA)) = []" by (rule find_None_filter)
    with cntA show ?thesis by simp
  next
    case (Some a)
    then show ?thesis by (simp add: get_by_event_id_def)
  qed
  then obtain wA where wA: "get_by_event_id (working sessA) ?eid = Some wA" ..
  obtain d1 where d1: "inbox d1 = inbox (working sessA)"
    and s2: "s2 = commit (sessA\<lparr>working :=
              (case get_by_event_id d1 ?eid of None \<Rightarrow> d1
               | Some w \<Rightarrow> mark_processed d1 now (w_id w))\<rparr>)"
    using process_webhook_event_True [OF pwe] by blast
  have g1: "get_by_event_id d1 ?eid = Some wA"
    using wA d1 by (simp add: get_by_event_id_def)
  have w1: "working sess1 = mark_processed d1 now (w_id wA)"
    using s1 s2 g1 by simp
  have c1: "committed sess1 = working sess1"
    using s1 by simp
  have p1: "\<exists>w'. get_by_event_id (working sess1) ?eid = Some w' \<and> w_processed w'"
    unfolding w1 using g1 by (rule marked_row_processed)
  have n1: "length (filter ?P (inbox (working sess1))) = 1"
    unfolding w1 marked_count using d1 cntA by simp
  show ?thesis using c1 p1 n1 by blast
qed

text \<open>
  C7.  When the inbox already holds a processed row for the event id, the call answers
  \<open>duplicate\<close> and the session (subscriptions, events, inbox, committed and open state)
  is exactly what it was.  And when a first delivery was answered \<open>processed\<close>, a second
  delivery of the same payload is answered \<open>duplicate\<close>, changes nothing, and the inbox
  holds exactly one row for the event id (given that it held at most one before).
\<close>

theorem duplicate_webhook_no_side_effects:
  "(get_by_event_id (working sess) (p_event_id payload) = Some w \<and> w_processed w \<longrightarrow>
      process_payment_webhook sess now payload =
        (Inr \<lparr>resp_status = ''duplicate'', resp_message = ''Event already processed'',
               resp_event_id = Some (p_event_id payload)\<rparr>, sess)) \<and>
   (process_payment_webhook sess now payload = (Inr r1, sess1) \<and>
    resp_status r1 = ''processed'' \<and>
    length (filter (\<lambda>r. w_event_id r = p_event_id payload) (inbox (working sess))) \<le> 1 \<longrightarrow>
      process_payment_webhook sess1 now' payload =
        (Inr \<lparr>resp_status = ''duplicate'', resp_message = ''Event already processed'',
               resp_event_id = Some (p_event_id payload)\<rparr>, sess1) \<and>
      committed sess1 = working sess1 \<and>
      length (filter (\<lambda>r. w_event_id r = p_event_id payload) (inbox (working sess1))) = 1)"
proof (intro conjI impI)
  assume "get_by_event_id (working sess) (p_event_id payload) = Some w \<and> w_processed w"
  then show "process_payment_webhook sess now payload =
        (Inr \<lparr>resp_status = ''duplicate'', resp_message = ''Event already processed'',
               resp_event_id = Some (p_event_id payload)\<rparr>, sess)"
    using process_payment_webhook_duplicate by blast
next
  assume a: "process_payment_webhook sess now payload = (Inr r1, sess1) \<and>
    resp_status r1 = ''processed'' \<and>
    length (filter (\<lambda>r. w_event_id r = p_event_id payload) (inbox (working sess))) \<le> 1"
  then have b: "committed sess1 = working sess1 \<and>
         (\<exists>w'. get_by_event_id (working sess1) (p_event_id payload) = Some w' \<and> w_processed w') \<and>
         length (filter (\<lambda>r. w_event_id r = p_event_id payload) (inbox (working sess1))) = 1"
    using process_payment_webhook_processed [of sess now payload r1 sess1] by blast
  then show "process_payment_webhook sess1 now' payload =
        (Inr \<lparr>resp_status = ''duplicate'', resp_message = ''Event already processed'',
               resp_event_id = Some (p_event_id payload)\<rparr>, sess1)"
    using process_payment_webhook_duplicate by blast
  from b show "committed sess1 = working sess1" by blast
  from b show "length (filter (\<lambda>r. w_event_id r = p_event_id payload) (inbox (working sess1))) = 1"
    by blast
qed

lemma sample_first_delivery:
  "\<exists>r1. fst (process_payment_webhook (sample_session ''pending'' 1) 100
            (sample_webhook_payload ''success'' 7)) = Inr r1 \<and> resp_status r1 = ''processed''"
  by (simp add: process_payment_webhook_def process_webhook_event_def Let_def
      sample_session_def sample_db_def sample_webhook_payload_def sample_subscription_def
      get_by_event_id_def create_webhook_request_def handle_payment_success_def
      sample_plan_def is_trial_plan_def update_status_def sub_update_def add_event_def
      split: prod.splits)

text \<open>
  Scenario S6: the sample event delivered twice to the pending subscription 7, and
  delivered to a session whose inbox has the processed row.
\<close>

theorem duplicate_webhook_no_side_effects_witness:
  "fst (process_payment_webhook
          (snd (process_payment_webhook (sample_session ''pending'' 1) 100
                  (sample_webhook_payload ''success'' 7)))
          200 (sample_webhook_payload ''success'' 7)) =
     Inr \<lparr>resp_status = ''duplicate'', resp_message = ''Event already processed'',
           resp_event_id = Some (p_event_id (sample_webhook_payload ''success'' 7))\<rparr> \<and>
   snd (process_payment_webhook
          (snd (process_payment_webhook (sample_session ''pending'' 1) 100
                  (sample_webhook_payload ''success'' 7)))
          200 (sample_webhook_payload ''success'' 7)) =
     snd (process_payment_webhook (sample_session ''pending'' 1) 100
                  (sample_webhook_payload ''success'' 7)) \<and>
   length (filter (\<lambda>r. w_event_id r = p_event_id (sample_webhook_payload ''success'' 7))
     (inbox (working (snd (process_payment_webhook (sample_session ''pending'' 1) 100
                  (sample_webhook_payload ''success'' 7)))))) = 1 \<and>
   process_payment_webhook sample_processed_session 200 (sample_webhook_payload ''success'' 7) =
     (Inr \<lparr>resp_status = ''duplicate'', resp_message = ''Event already processed'',
            resp_event_id = Some (p_event_id (sample_webhook_payload ''success'' 7))\<rparr>,
      sample_processed_session)"
proof -
  let ?p = "sample_webhook_payload ''success'' 7"
  let ?S = "sample_session ''pending'' 1"
  let ?S1 = "snd (process_payment_webhook ?S 100 ?p)"
  have p: "get_by_event_id (working sample_processed_session) (p_event_id ?p) =
             Some sample_processed_row \<and> w_processed sample_processed_row"
    by (simp add: get_by_event_id_def sample_processed_session_def sample_processed_row_def
        sample_webhook_payload_def)
  obtain r1 where r1: "fst (process_payment_webhook ?S 100 ?p) = Inr r1"
      "resp_status r1 = ''processed''"
    using sample_first_delivery by blast
  have run: "process_payment_webhook ?S 100 ?p = (Inr r1, ?S1)"
    using r1(1) by (simp add: prod_eq_iff)
  have u: "length (filter (\<lambda>r. w_event_id r = p_event_id ?p) (inbox (working ?S))) \<le> 1"
    by (simp add: sample_session_def sample_db_def)
  have A: "process_payment_webhook sample_processed_session 200 ?p =
     (Inr \<lparr>resp_status = ''duplicate'', resp_message = ''Event already processed'',
            resp_event_id = Some (p_event_id ?p)\<rparr>, sample_processed_session)"
    by (rule mp [OF conjunct1 [OF duplicate_webhook_no_side_effects
          [of sample_processed_session ?p sample_processed_row 200]] p])
  have B: "process_payment_webhook ?S1 200 ?p =
        (Inr \<lparr>resp_status = ''duplicate'', resp_message = ''Event already processed'',
               resp_event_id = Some (p_event_id ?p)\<rparr>, ?S1) \<and>
      committed ?S1 = working ?S1 \<and>
      length (filter (\<lambda>r. w_event_id r = p_event_id ?p) (inbox (working ?S1))) = 1"
    by (rule mp [OF conjunct2 [OF duplicate_webhook_no_side_effects
          [of ?S ?p sample_processed_row 100 r1 ?S1 200]]])
      (intro conjI run r1(2) u)
  from B have B1: "fst (process_payment_webhook ?S1 200 ?p) =
        Inr \<lparr>resp_status = ''duplicate'', resp_message = ''Event already processed'',
               resp_event_id = Some (p_event_id ?p)\<rparr>"
    and B2: "snd (process_payment_webhook ?S1 200 ?p) = ?S1"
    by simp_all
  from B have B3: "length (filter (\<lambda>r. w_event_id r = p_event_id ?p) (inbox (working ?S1))) = 1"
    by (rule conjunct2 [THEN conjunct2])
  show ?thesis
    by (intro conjI B1 B2 B3 A)
qed

text \<open>
  C10.  When no subscription has the event's \<open>subscription\_id\<close>, or the status is
  neither \<open>success\<close> nor \<open>failed\<close>, \<open>process\_webhook\_event\<close> returns \<open>False\<close> and the
  session is unchanged: no event row, no change to a subscription, no inbox row marked
  processed.  The synchronous path \<open>process\_payment\_webhook\<close> then raises and rolls the
  transaction back.
\<close>

theorem process_webhook_event_rejects:
  "(subscriptions (working sess) (p_subscription_id payload) = None \<or>
    (p_status payload \<noteq> ''success'' \<and> p_status payload \<noteq> ''failed'') \<longrightarrow>
      process_webhook_event sess now eid payload = (False, sess)) \<and>
   ((subscriptions (working sess) (p_subscription_id payload) = None \<or>
     (p_status payload \<noteq> ''success'' \<and> p_status payload \<noteq> ''failed'')) \<and>
    \<not> (\<exists>w. get_by_event_id (working sess) (p_event_id payload) = Some w \<and> w_processed w) \<longrightarrow>
      process_payment_webhook sess now payload =
        (Inl (RuntimeError ''Webhook processing returned false''), rollback sess))"
proof (intro conjI impI)
  assume a: "subscriptions (working sess) (p_subscription_id payload) = None \<or>
    p_status payload \<noteq> ''success'' \<and> p_status payload \<noteq> ''failed''"
  then show "process_webhook_event sess now eid payload = (False, sess)"
    by (auto simp add: process_webhook_event_def Let_def split: option.splits)
next
  assume a: "(subscriptions (working sess) (p_subscription_id payload) = None \<or>
     (p_status payload \<noteq> ''success'' \<and> p_status payload \<noteq> ''failed'')) \<and>
    \<not> (\<exists>w. get_by_event_id (working sess) (p_event_id payload) = Some w \<and> w_processed w)"
  define sessA where "sessA =
     (case get_by_event_id (working sess) (p_event_id payload) of
        Some w \<Rightarrow> sess\<lparr>working :=
                        webhook_update (working sess) (w_id w) (\<lambda>r. r\<lparr>w_payload := payload\<rparr>)\<rparr>
      | None \<Rightarrow> sess\<lparr>working := create_webhook_request (working sess) (p_event_id payload) payload\<rparr>)"
  have s: "subscriptions (working sessA) = subscriptions (working sess)"
    and c: "committed sessA = committed sess"
    by (simp_all add: sessA_def create_webhook_request_def split: option.splits)
  have "process_webhook_event sessA now (p_event_id payload) payload = (False, sessA)"
    using a s by (auto simp add: process_webhook_event_def Let_def split: option.splits)
  moreover have "rollback sessA = rollback sess"
    using c by (simp add: rollback_def sessA_def split: option.splits)
  moreover have "\<not> (case get_by_event_id (working sess) (p_event_id payload) of
      None \<Rightarrow> False | Some w \<Rightarrow> w_processed w)"
    using a by (auto split: option.splits)
  ultimately show "process_payment_webhook sess now payload =
        (Inl (RuntimeError ''Webhook processing returned false''), rollback sess)"
    by (simp add: process_payment_webhook_def Let_def sessA_def)
qed

text \<open>
  An event for the unknown subscription 8, and an event with status
  \<open>unknown\_status\<close>, on the sample session.
\<close>

theorem process_webhook_event_rejects_witness:
  "process_webhook_event (sample_session ''pending'' 1) 100 ''test-event-123''
     (sample_webhook_payload ''success'' 8) = (False, sample_session ''pending'' 1) \<and>
   process_webhook_event (sample_session ''pending'' 1) 100 ''test-event-123''
     (sample_webhook_payload ''unknown_status'' 7) = (False, sample_session ''pending'' 1) \<and>
   process_payment_webhook (sample_session ''pending'' 1) 100
     (sample_webhook_payload ''unknown_status'' 7) =
        (Inl (RuntimeError ''Webhook processing returned false''), sample_session ''pending'' 1)"
proof -
  have a: "subscriptions (working (sample_session ''pending'' 1))
      (p_subscription_id (sample_webhook_payload ''success'' 8)) = None"
    by (simp add: sample_session_def sample_db_def sample_webhook_payload_def)
  have b: "p_status (sample_webhook_payload ''unknown_status'' 7) \<noteq> ''success'' \<and>
           p_status (sample_webhook_payload ''unknown_status'' 7) \<noteq> ''failed''"
    by (simp add: sample_webhook_payload_def)
  have c: "\<not> (\<exists>w. get_by_event_id (working (sample_session ''pending'' 1))
       (p_event_id (sample_webhook_payload ''unknown_status'' 7)) = Some w \<and> w_processed w)"
    by (simp add: get_by_event_id_def sample_session_def sample_db_def)
  have d: "rollback (sample_session ''pending'' 1) = sample_session ''pending'' 1"
    by (simp add: rollback_def sample_session_def)
  show ?thesis
    using a b c d
      process_webhook_event_rejects [of "sample_session ''pending'' 1"
        "sample_webhook_payload ''success'' 8" 100 "''test-event-123''"]
      process_webhook_event_rejects [of "sample_session ''pending'' 1"
        "sample_webhook_payload ''unknown_status'' 7" 100 "''test-event-123''"]
    by simp
qed

subsection \<open>Properties of the webhook client\<close>

lemma send_loop_success:
  assumes "int attempt \<le> retries" "post attempt = Response code body text" "code < 400"
  shows "send_loop post retries attempt sleeps lastx =
     ((case body of Some v \<Rightarrow> Inr (Parsed v) | None \<Rightarrow> Inr (RawSuccess text)), sleeps)"
  using assms by (subst send_loop.simps) (simp split: option.splits)

lemma send_loop_client_error:
  assumes "int attempt < retries" "post attempt = Response code body text"
    and "400 \<le> code" "code < 500"
  shows "send_loop post retries attempt sleeps lastx =
     send_loop post retries (Suc attempt) (sleeps @ [2 ^ attempt]) (Some (HTTPStatusError code))"
  using assms by (subst send_loop.simps) simp

text \<open>
  A response below 400 whose body cannot be decoded is taken for a failure and retried.
\<close>

lemma send_loop_undecodable:
  assumes "int attempt < retries" "post attempt = Undecodable code text" "code < 400"
  shows "send_loop post retries attempt sleeps lastx =
     send_loop post retries (Suc attempt) (sleeps @ [2 ^ attempt])
       (Some (OtherError ''UnicodeDecodeError''))"
  using assms by (subst send_loop.simps) simp

text \<open>
  C8, evaluated where the code departs from it.  With a retry budget of 3, a first
  response 404 and a second response 200, \<open>send\_webhook\<close> does not raise at the 404:
  it sleeps \<open>2 ^ 0 = 1\<close> second, posts again and returns the parsed body of the second
  response.  (\<open>raise\_for\_status\<close> is called inside the \<open>try\<close>, and the clause
  \<open>except httpx.HTTPError\<close> catches the \<open>HTTPStatusError\<close> and retries.)
\<close>

theorem send_webhook_retries_client_error:
  "send_webhook (\<lambda>k. if k = 0 then Response 404 None ''Not Found''
                     else Response 200 (Some (JObj [(''status'', JStr ''processed'')])) []) 3 =
     (Inr (Parsed (JObj [(''status'', JStr ''processed'')])), [1])"
  by (simp add: send_webhook_def send_loop.simps)


subsection \<open>Properties of the payment processor\<close>

lemma pay_inv_initial: "pay_inv initial_pay_session"
  by (simp add: pay_inv_def initial_pay_session_def status_history_def)

lemma gateway_status: "g_status (gateway_process_payment draw cn) = ''success'' \<or>
    g_status (gateway_process_payment draw cn) = ''failed''"
  by (simp add: gateway_process_payment_def)

lemma status_history_append:
  "status_history (d\<lparr>status_log := status_log d @ [(j, st)]\<rparr>) i =
     (if i = j then status_history d i @ [st] else status_history d i)"
  by (simp add: status_history_def)

lemma initiate_refund_unchanged:
  "pay_working s = pay_committed s \<Longrightarrow> snd (initiate_refund s i) = s"
  by (simp add: initiate_refund_def pay_rollback_def split: option.splits)

lemma tx_update_status_Some:
  assumes "transactions d i = Some t"
  shows "\<exists>t'. t_status t' = st \<and>
     tx_update_status d i st g m =
       d\<lparr>transactions := (transactions d)(i \<mapsto> t'),
         status_log := status_log d @ [(i, st)]\<rparr>"
proof -
  define t1 where "t1 = t\<lparr>t_status := st\<rparr>"
  define t2 where "t2 = (case g of None \<Rightarrow> t1
        | Some r \<Rightarrow> if r = [] then t1 else t1\<lparr>t_gateway_reference := Some r\<rparr>)"
  define t3 where "t3 = (case m of None \<Rightarrow> t2
        | Some r \<Rightarrow> if r = [] then t2 else t2\<lparr>t_error_message := Some r\<rparr>)"
  have "t_status t3 = st"
    by (simp add: t3_def t2_def t1_def split: option.splits)
  moreover have "tx_update_status d i st g m =
       d\<lparr>transactions := (transactions d)(i \<mapsto> t3),
         status_log := status_log d @ [(i, st)]\<rparr>"
    using assms by (simp add: tx_update_status_def Let_def t3_def t2_def t1_def split: option.splits)
  ultimately show ?thesis by blast
qed

lemma process_payment_new:
  assumes "transactions (pay_working s) new_id = None"
  shows "\<exists>t st. (st = ''success'' \<or> st = ''failed'') \<and> t_status t = st \<and>
     (snd (process_payment s request new_id draw redis_ok) = pay_rollback s \<or>
      snd (process_payment s request new_id draw redis_ok) =
        pay_commit (s\<lparr>pay_working := (pay_working s)\<lparr>
          transactions := (transactions (pay_working s))(new_id \<mapsto> t),
          status_log := status_log (pay_working s) @
             [(new_id, ''pending''), (new_id, ''processing''), (new_id, st)]\<rparr>\<rparr>))"
proof -
  let ?d = "pay_working s"
  let ?g = "gateway_process_payment draw (pr_card_number request)"
  let ?t0 = "\<lparr>t_id = new_id, t_subscription_id = pr_subscription_id request,
                         t_amount = pr_amount request, t_status = ''pending'',
                         t_gateway_reference = None, t_error_message = None,
                         t_trial = pr_trial request, t_renewal = pr_renewal request\<rparr>"
  define d1 where "d1 = ?d\<lparr>transactions := (transactions ?d)(new_id \<mapsto> ?t0),
                      status_log := status_log ?d @ [(new_id, ''pending'')]\<rparr>"
  define d2 where "d2 = tx_update_status d1 new_id ''processing'' None None"
  define d3 where "d3 = tx_update_status d2 new_id (g_status ?g)
                      (Some (g_gateway_reference ?g))
                      (if g_status ?g = ''failed'' then Some (g_message ?g) else None)"
  have g: "g_status ?g = ''success'' \<or> g_status ?g = ''failed''"
    by (rule gateway_status)
  have "transactions d1 new_id = Some ?t0"
    by (simp add: d1_def)
  from tx_update_status_Some [OF this, of "''processing''" None None]
  obtain t' where t': "d2 = d1\<lparr>transactions := (transactions d1)(new_id \<mapsto> t'),
         status_log := status_log d1 @ [(new_id, ''processing'')]\<rparr>"
    unfolding d2_def by blast
  then have "transactions d2 new_id = Some t'"
    by simp
  from tx_update_status_Some [OF this, of "g_status ?g" "Some (g_gateway_reference ?g)"
      "if g_status ?g = ''failed'' then Some (g_message ?g) else None"]
  obtain t'' where t'': "t_status t'' = g_status ?g"
    "d3 = d2\<lparr>transactions := (transactions d2)(new_id \<mapsto> t''),
         status_log := status_log d2 @ [(new_id, g_status ?g)]\<rparr>"
    unfolding d3_def by blast
  have d3: "d3 = ?d\<lparr>transactions := (transactions ?d)(new_id \<mapsto> t''),
          status_log := status_log ?d @
             [(new_id, ''pending''), (new_id, ''processing''), (new_id, g_status ?g)]\<rparr>"
    unfolding t''(2) t' d1_def by simp
  have "snd (process_payment s request new_id draw redis_ok) =
          pay_rollback (s\<lparr>pay_working := d3\<rparr>) \<or>
        snd (process_payment s request new_id draw redis_ok) =
          pay_commit (s\<lparr>pay_working := d3\<rparr>)"
    using assms unfolding d3_def d2_def d1_def
    by (simp add: process_payment_def Let_def)
  moreover have "pay_rollback (s\<lparr>pay_working := d3\<rparr>) = pay_rollback s"
    by (simp add: pay_rollback_def)
  ultimately show ?thesis
    using g t''(1) unfolding d3 by metis
qed

lemma process_payment_existing:
  assumes "transactions (pay_working s) new_id \<noteq> None"
  shows "snd (process_payment s request new_id draw redis_ok) = pay_rollback s"
  using assms by (simp add: process_payment_def Let_def)


lemma pay_inv_commit_new:
  assumes inv: "pay_inv s"
    and new: "transactions (pay_working s) new_id = None"
    and st: "st = ''success'' \<or> st = ''failed''" "t_status t = st"
  shows "pay_inv (pay_commit (s\<lparr>pay_working := (pay_working s)\<lparr>
          transactions := (transactions (pay_working s))(new_id \<mapsto> t),
          status_log := status_log (pay_working s) @
             [(new_id, ''pending''), (new_id, ''processing''), (new_id, st)]\<rparr>\<rparr>))"
proof -
  have wc: "pay_working s = pay_committed s"
    using inv by (simp add: pay_inv_def)
  have old: "case transactions (pay_committed s) i of
             None \<Rightarrow> status_history (pay_committed s) i = []
           | Some t \<Rightarrow>
               (status_history (pay_committed s) i = [''pending'', ''processing'', ''success''] \<or>
                status_history (pay_committed s) i = [''pending'', ''processing'', ''failed'']) \<and>
               t_status t = last (status_history (pay_committed s) i)" for i
    using inv by (simp add: pay_inv_def)
  have h0: "status_history (pay_committed s) new_id = []"
    using old [of new_id] new wc by simp
  let ?d = "(pay_committed s)\<lparr>
          transactions := (transactions (pay_committed s))(new_id \<mapsto> t),
          status_log := status_log (pay_committed s) @
             [(new_id, ''pending''), (new_id, ''processing''), (new_id, st)]\<rparr>"
  have hist: "status_history ?d i =
      (if i = new_id then [''pending'', ''processing'', st] else status_history (pay_committed s) i)"
    for i
    using h0 by (simp add: status_history_def)
  define s' where "s' = pay_commit (s\<lparr>pay_working := (pay_working s)\<lparr>
          transactions := (transactions (pay_working s))(new_id \<mapsto> t),
          status_log := status_log (pay_working s) @
             [(new_id, ''pending''), (new_id, ''processing''), (new_id, st)]\<rparr>\<rparr>)"
  have c': "pay_committed s' = ?d" "pay_working s' = ?d"
    by (simp_all add: s'_def pay_commit_def wc)
  have X: "case transactions ?d i of
             None \<Rightarrow> status_history ?d i = []
           | Some t \<Rightarrow>
               (status_history ?d i = [''pending'', ''processing'', ''success''] \<or>
                status_history ?d i = [''pending'', ''processing'', ''failed'']) \<and>
               t_status t = last (status_history ?d i)" for i
  proof (cases "i = new_id")
    case True
    then show ?thesis using st by (auto simp add: hist)
  next
    case False
    then show ?thesis using old [of i] by (simp add: hist split: option.splits)
  qed
  have "pay_inv s'"
    unfolding pay_inv_def c' by (intro conjI allI refl X)
  then show ?thesis
    by (simp only: s'_def)
qed

lemma pay_inv_apply: "pay_inv s \<Longrightarrow> pay_inv (apply_pay_op s op)"
proof (cases op)
  case (ProcessPayment request new_id draw redis_ok)
  assume inv: "pay_inv s"
  then have wc: "pay_working s = pay_committed s"
    by (simp add: pay_inv_def)
  then have rb: "pay_rollback s = s"
    by (simp add: pay_rollback_def)
  show ?thesis
  proof (cases "transactions (pay_working s) new_id")
    case None
    from process_payment_new [OF None, of request draw redis_ok]
    obtain t st where "st = ''success'' \<or> st = ''failed''" "t_status t = st"
      "snd (process_payment s request new_id draw redis_ok) = pay_rollback s \<or>
       snd (process_payment s request new_id draw redis_ok) =
        pay_commit (s\<lparr>pay_working := (pay_working s)\<lparr>
          transactions := (transactions (pay_working s))(new_id \<mapsto> t),
          status_log := status_log (pay_working s) @
             [(new_id, ''pending''), (new_id, ''processing''), (new_id, st)]\<rparr>\<rparr>)"
      by blast
    then show ?thesis
      using pay_inv_commit_new [OF inv None, of st t] inv rb ProcessPayment by auto
  next
    case (Some a)
    then show ?thesis
      using process_payment_existing [of s new_id request draw redis_ok] inv rb ProcessPayment
      by simp
  qed
next
  case (InitiateRefund i)
  assume inv: "pay_inv s"
  then have "pay_working s = pay_committed s"
    by (simp add: pay_inv_def)
  then show ?thesis
    using inv InitiateRefund by (simp add: initiate_refund_unchanged)
qed

lemma pay_inv_run: "pay_inv s \<Longrightarrow> pay_inv (foldl apply_pay_op s ops)"
  by (induction ops arbitrary: s) (simp_all add: pay_inv_apply)

lemma history_shapes:
  assumes "h = [] \<or> h = [''pending'', ''processing'', ''success''] \<or>
           h = [''pending'', ''processing'', ''failed'']"
  shows "never_reverted h \<and> terminal_once h \<and> terminal_moves h"
  using assms by (auto simp add: terminal_once_def is_terminal_def is_refund_def)

text \<open>
  C9.  After any sequence of \<open>process\_payment\<close> and \<open>initiate\_refund\<close> calls on an
  initially empty database, the status values written to any one transaction satisfy:
  once a terminal status (\<open>success\<close>, \<open>failed\<close>, \<open>refund\_*\<close>) is written, neither
  \<open>pending\<close> nor \<open>processing\<close> is written after it; no terminal status is written
  twice; a status written directly after a terminal one is a refund status after
  \<open>success\<close>; and the stored status is the last one written.
\<close>

theorem transaction_terminal_once:
  "never_reverted (status_history (pay_committed (foldl apply_pay_op initial_pay_session ops)) i) \<and>
   terminal_once (status_history (pay_committed (foldl apply_pay_op initial_pay_session ops)) i) \<and>
   terminal_moves (status_history (pay_committed (foldl apply_pay_op initial_pay_session ops)) i) \<and>
   (case transactions (pay_committed (foldl apply_pay_op initial_pay_session ops)) i of
      None \<Rightarrow> status_history (pay_committed (foldl apply_pay_op initial_pay_session ops)) i = []
    | Some t \<Rightarrow>
        t_status t =
          last (status_history (pay_committed (foldl apply_pay_op initial_pay_session ops)) i))"
proof -
  let ?s = "foldl apply_pay_op initial_pay_session ops"
  have "pay_inv ?s"
    by (rule pay_inv_run [OF pay_inv_initial])
  then have c: "case transactions (pay_committed ?s) i of
             None \<Rightarrow> status_history (pay_committed ?s) i = []
           | Some t \<Rightarrow>
               (status_history (pay_committed ?s) i = [''pending'', ''processing'', ''success''] \<or>
                status_history (pay_committed ?s) i = [''pending'', ''processing'', ''failed'']) \<and>
               t_status t = last (status_history (pay_committed ?s) i)"
    by (simp add: pay_inv_def)
  then have "status_history (pay_committed ?s) i = [] \<or>
      status_history (pay_committed ?s) i = [''pending'', ''processing'', ''success''] \<or>
      status_history (pay_committed ?s) i = [''pending'', ''processing'', ''failed'']"
    by (auto split: option.splits)
  from history_shapes [OF this] c show ?thesis
    by (auto split: option.splits)
qed

lemma sample_history:
  "status_history (pay_committed (foldl apply_pay_op initial_pay_session
      [ProcessPayment sample_payment_request 1 sample_draw True, InitiateRefund 1,
       ProcessPayment sample_payment_request 1 sample_draw True])) 1 =
    [''pending'', ''processing'', ''success'']"
  by (simp add: process_payment_def initiate_refund_def initial_pay_session_def Let_def
      tx_update_status_def gateway_process_payment_def sample_payment_request_def
      sample_draw_def success_card_def fail_card_def pay_commit_def pay_rollback_def
      status_history_def)

text \<open>
  A payment with the success card as transaction 1, a refund request for it, and a
  second payment that draws the same key: the history of transaction 1 is
  \<open>pending\<close>, \<open>processing\<close>, \<open>success\<close>.
\<close>

theorem transaction_terminal_once_witness:
  "status_history (pay_committed (foldl apply_pay_op initial_pay_session
      [ProcessPayment sample_payment_request 1 sample_draw True, InitiateRefund 1,
       ProcessPayment sample_payment_request 1 sample_draw True])) 1 =
    [''pending'', ''processing'', ''success''] \<and>
   is_terminal ''success'' \<and>
   never_reverted [''pending'', ''processing'', ''success''] \<and>
   terminal_once [''pending'', ''processing'', ''success''] \<and>
   terminal_moves [''pending'', ''processing'', ''success'']"
proof -
  have t: "is_terminal ''success''"
    by (simp add: is_terminal_def)
  show ?thesis
    using transaction_terminal_once [of
        "[ProcessPayment sample_payment_request 1 sample_draw True, InitiateRefund 1,
          ProcessPayment sample_payment_request 1 sample_draw True]" 1] t
    unfolding sample_history by blast
qed

subsection \<open>Properties of the job queues of the subscription service\<close>

lemma digit_char_not_m: "d < 10 \<Longrightarrow> digit_char d \<noteq> CHR ''m''"
  by (simp add: digit_char_def char_of_eq_iff take_bit_eq_mod)

lemma str_nat_no_m: "CHR ''m'' \<notin> set (str_nat n)"
proof (induction n rule: str_nat.induct)
  case (1 n)
  show ?case
  proof (cases "n < 10")
    case True
    then show ?thesis
      using digit_char_not_m [of n] by (subst str_nat.simps) auto
  next
    case False
    then show ?thesis
      using 1 digit_char_not_m [of "n mod 10"] by (subst str_nat.simps) auto
  qed
qed

lemma str_int_no_m: "CHR ''m'' \<notin> set (str_int i)"
  by (simp add: str_int_def str_nat_no_m)

lemma str_int_ne_m1: "str_int i \<noteq> ''m1''"
proof
  assume "str_int i = ''m1''"
  then have "CHR ''m'' \<in> set (str_int i)" by simp
  then show False using str_int_no_m by blast
qed

lemma sample_ids:
  "worker_message_id (sample_lib h dumps) sample_message = str_int (h sample_message)"
  "sweeper_message_id (sample_lib h dumps) sample_message = ''m1''"
  by (simp_all add: worker_message_id_def sweeper_message_id_def sample_lib_def
      sample_envelope_def py_truthy_def py_str_def)

lemma sample_keys_differ:
  "worker_lock_key (sample_lib h dumps) q sample_message \<noteq>
   sweeper_lock_key (sample_lib h dumps) q sample_message"
  by (simp add: worker_lock_key_def sweeper_lock_key_def sample_ids str_int_ne_m1)

text \<open>
  C6, evaluated where the code departs from it.  For the envelope whose \<open>id\<close> field is
  \<open>m1\<close>, the worker \<open>\_claim\_lock\_process\<close> builds its lock key from
  \<open>hash(msg)\<close>, the builtin string hash, and not from the \<open>id\<close> field; the sweeper
  builds its key from the \<open>id\<close> field.  Whatever the hash function is, the two
  identifiers and the two lock keys differ.
\<close>

theorem lock_key_ignores_envelope_id:
  "json_loads (sample_lib h dumps) sample_message = Some sample_envelope \<and>
   map_of (case sample_envelope of JObj kv \<Rightarrow> kv | _ \<Rightarrow> []) ''id'' = Some (JStr ''m1'') \<and>
   worker_message_id (sample_lib h dumps) sample_message = str_int (h sample_message) \<and>
   worker_message_id (sample_lib h dumps) sample_message \<noteq> ''m1'' \<and>
   sweeper_message_id (sample_lib h dumps) sample_message = ''m1'' \<and>
   worker_lock_key (sample_lib h dumps) ''q:sub:payment_initiation'' sample_message \<noteq>
   sweeper_lock_key (sample_lib h dumps) ''q:sub:payment_initiation'' sample_message"
  using sample_keys_differ [of h dumps "''q:sub:payment_initiation''"]
  by (simp add: sample_ids str_int_ne_m1) (simp add: sample_lib_def sample_envelope_def)

lemma policy_payment_initiation:
  "QUEUE_POLICIES ''q:sub:payment_initiation'' = Some DEFAULT_POLICY"
  by (simp add: QUEUE_POLICIES_def)

lemma sample_claim_lock:
  "claim_lock (sample_lib h dumps) (sample_redis ''q:sub:payment_initiation'' sample_message)
     ''q:sub:payment_initiation'' =
   (Locked sample_message sample_envelope 0
      (worker_lock_key (sample_lib h dumps) ''q:sub:payment_initiation'' sample_message),
    \<lparr>lists = (\<lambda>k. [])(''q:sub:payment_initiation'' := [],
               ''q:sub:payment_initiation:processing'' := [sample_message]),
     zsets = (\<lambda>k. Map.empty),
     locks = [worker_lock_key (sample_lib h dumps) ''q:sub:payment_initiation'' sample_message
                \<mapsto> 180]\<rparr>)"
proof -
  have m: "sample_message \<noteq> []"
    by (simp add: sample_message_def)
  have l: "json_loads (sample_lib h dumps) sample_message = Some sample_envelope"
    by (simp add: sample_lib_def)
  have a: "message_attempts sample_envelope = Inr 0"
    by (simp add: message_attempts_def sample_envelope_def int_of_json_def)
  show ?thesis
    by (simp add: claim_lock_def claim_message_def sample_redis_def lpush_def Let_def m l a
        policy_payment_initiation DEFAULT_POLICY_def set_lock_def)
qed

lemma sample_sweep_item:
  assumes "lists r ''q:sub:payment_initiation:processing'' = [sample_message]"
    and "locks r = [worker_lock_key (sample_lib h dumps) ''q:sub:payment_initiation'' sample_message
                \<mapsto> 180]"
  shows "sweep_item (sample_lib h dumps) r now rnd ''q:sub:payment_initiation'' sample_message =
     Inr (queue_delayed_message (sample_lib h dumps)
            (remove_from_processing r ''q:sub:payment_initiation:processing'' sample_message)
            now ''q:sub:payment_initiation'' retried_envelope
            (compute_backoff ''q:sub:payment_initiation'' 1 (rnd sample_message)))"
proof -
  have l: "json_loads (sample_lib h dumps) sample_message = Some sample_envelope"
    by (simp add: sample_lib_def)
  have a: "message_attempts sample_envelope = Inr 0"
    by (simp add: message_attempts_def sample_envelope_def int_of_json_def)
  have k: "\<not> lock_exists r
      (sweeper_lock_key (sample_lib h dumps) ''q:sub:payment_initiation'' sample_message)"
    using sample_keys_differ [of h dumps "''q:sub:payment_initiation''"]
    by (simp add: lock_exists_def assms(2))
  have rm: "retry_message sample_envelope 1 = retried_envelope"
    by (simp add: retry_message_def sample_envelope_def retried_envelope_def)
  show ?thesis
    using k by (simp add: sweep_item_def Let_def l a rm policy_payment_initiation
        DEFAULT_POLICY_def)
qed

lemma sample_sweep:
  "\<exists>r2. sweep_processing_queues (sample_lib h dumps)
          (snd (claim_lock (sample_lib h dumps)
                  (sample_redis ''q:sub:payment_initiation'' sample_message)
                  ''q:sub:payment_initiation'')) now rnd = Inr r2 \<and>
        lists r2 ''q:sub:payment_initiation:processing'' = [] \<and>
        zsets r2 ''q:sub:payment_initiation:delayed'' (dumps retried_envelope) =
          Some (now + compute_backoff ''q:sub:payment_initiation'' 1 (rnd sample_message)) \<and>
        lock_exists r2
          (worker_lock_key (sample_lib h dumps) ''q:sub:payment_initiation'' sample_message)"
proof -
  let ?r1 = "\<lparr>lists = (\<lambda>k. [])(''q:sub:payment_initiation'' := [],
               ''q:sub:payment_initiation:processing'' := [sample_message]),
     zsets = (\<lambda>k. Map.empty),
     locks = [worker_lock_key (sample_lib h dumps) ''q:sub:payment_initiation'' sample_message
                \<mapsto> 180]\<rparr>"
  have i: "sweep_item (sample_lib h dumps) ?r1 now rnd ''q:sub:payment_initiation'' sample_message =
     Inr (queue_delayed_message (sample_lib h dumps)
            (remove_from_processing ?r1 ''q:sub:payment_initiation:processing'' sample_message)
            now ''q:sub:payment_initiation'' retried_envelope
            (compute_backoff ''q:sub:payment_initiation'' 1 (rnd sample_message)))"
    by (rule sample_sweep_item) simp_all
  have d: "json_dumps (sample_lib h dumps) = dumps"
    by (simp add: sample_lib_def)
  show ?thesis
    unfolding sample_claim_lock snd_conv
    by (simp add: sweep_processing_queues_def sweep_queue_def i queue_delayed_message_def
        remove_from_processing_def Let_def d lock_exists_def)
qed

lemma capped_claim_lock:
  "claim_lock (sample_lib h dumps) (sample_redis ''q:sub:payment_initiation'' capped_message)
     ''q:sub:payment_initiation'' =
   (Locked capped_message capped_envelope 1
      (worker_lock_key (sample_lib h dumps) ''q:sub:payment_initiation'' capped_message),
    \<lparr>lists = (\<lambda>k. [])(''q:sub:payment_initiation'' := [],
               ''q:sub:payment_initiation:processing'' := [capped_message]),
     zsets = (\<lambda>k. Map.empty),
     locks = [worker_lock_key (sample_lib h dumps) ''q:sub:payment_initiation'' capped_message
                \<mapsto> 180]\<rparr>)"
proof -
  have m: "capped_message \<noteq> []"
    by (simp add: capped_message_def)
  have l: "json_loads (sample_lib h dumps) capped_message = Some capped_envelope"
    by (simp add: sample_lib_def capped_message_def sample_message_def)
  have a: "message_attempts capped_envelope = Inr 1"
    by (simp add: message_attempts_def capped_envelope_def int_of_json_def)
  show ?thesis
    by (simp add: claim_lock_def claim_message_def sample_redis_def lpush_def Let_def m l a
        policy_payment_initiation DEFAULT_POLICY_def set_lock_def)
qed

text \<open>
  C4, evaluated where the code departs from it.  The envelope carries \<open>attempts = 1\<close>
  and \<open>max\_attempts = 1\<close>, the handler raises, and the policy of the queue has
  \<open>max\_retries = 5\<close>: \<open>\_claim\_lock\_process\<close> compares \<open>attempts + 1 = 2\<close> with the
  policy's 5 only, answers \<open>retry\<close> and puts the envelope with \<open>attempts = 2\<close> on the
  delayed queue; nothing reaches the failed list.
\<close>

theorem retry_ceiling_ignores_max_attempts:
  "dict_get capped_envelope ''max_attempts'' = Some (JInt 1) \<and>
   message_attempts capped_envelope = Inr 1 \<and>
   (\<exists>r'. claim_lock_process (sample_lib h dumps)
            (sample_redis ''q:sub:payment_initiation'' capped_message) now rnd
            ''q:sub:payment_initiation'' (\<lambda>m. Inl (RuntimeError ''handler failed'')) =
            (Inr ''retry'', r') \<and>
         zsets r' ''q:sub:payment_initiation:delayed'' (dumps capped_retried_envelope) =
           Some (now + compute_backoff ''q:sub:payment_initiation'' 2 rnd) \<and>
         lists r' ''q:sub:payment_initiation:failed'' = [] \<and>
         lists r' ''q:sub:payment_initiation:processing'' = [])"
proof -
  have a: "message_attempts capped_envelope = Inr 1"
    by (simp add: message_attempts_def capped_envelope_def int_of_json_def)
  have g: "dict_get capped_envelope ''max_attempts'' = Some (JInt 1)"
    by (simp add: dict_get_def capped_envelope_def)
  have rm: "retry_message capped_envelope 2 = capped_retried_envelope"
    by (simp add: retry_message_def capped_envelope_def capped_retried_envelope_def)
  have d: "json_dumps (sample_lib h dumps) = dumps"
    by (simp add: sample_lib_def)
  have "\<exists>r'. claim_lock_process (sample_lib h dumps)
            (sample_redis ''q:sub:payment_initiation'' capped_message) now rnd
            ''q:sub:payment_initiation'' (\<lambda>m. Inl (RuntimeError ''handler failed'')) =
            (Inr ''retry'', r') \<and>
         zsets r' ''q:sub:payment_initiation:delayed'' (dumps capped_retried_envelope) =
           Some (now + compute_backoff ''q:sub:payment_initiation'' 2 rnd) \<and>
         lists r' ''q:sub:payment_initiation:failed'' = [] \<and>
         lists r' ''q:sub:payment_initiation:processing'' = []"
    by (simp add: claim_lock_process_def capped_claim_lock handle_locked_def Let_def
        policy_payment_initiation DEFAULT_POLICY_def rm d queue_delayed_message_def
        remove_from_processing_def release_lock_def)
  with a g show ?thesis by blast
qed

text \<open>
  C5, evaluated where the code departs from it.  A worker claims the envelope \<open>m1\<close>
  and holds its lock; the message is in the processing list.  The sweeper, run in that
  state, looks for the lock under a different key, finds none, removes the message from
  the processing list and puts it on the delayed queue with \<open>attempts = 1\<close>, while the
  worker's lock still exists.
\<close>

theorem sweeper_takes_live_locked_message:
  "fst (claim_lock (sample_lib h dumps)
          (sample_redis ''q:sub:payment_initiation'' sample_message)
          ''q:sub:payment_initiation'') =
     Locked sample_message sample_envelope 0
       (worker_lock_key (sample_lib h dumps) ''q:sub:payment_initiation'' sample_message) \<and>
   lock_exists (snd (claim_lock (sample_lib h dumps)
          (sample_redis ''q:sub:payment_initiation'' sample_message)
          ''q:sub:payment_initiation''))
     (worker_lock_key (sample_lib h dumps) ''q:sub:payment_initiation'' sample_message) \<and>
   lists (snd (claim_lock (sample_lib h dumps)
          (sample_redis ''q:sub:payment_initiation'' sample_message)
          ''q:sub:payment_initiation'')) ''q:sub:payment_initiation:processing'' =
     [sample_message] \<and>
   (\<exists>r2. sweep_processing_queues (sample_lib h dumps)
          (snd (claim_lock (sample_lib h dumps)
                  (sample_redis ''q:sub:payment_initiation'' sample_message)
                  ''q:sub:payment_initiation'')) now rnd = Inr r2 \<and>
        lists r2 ''q:sub:payment_initiation:processing'' = [] \<and>
        zsets r2 ''q:sub:payment_initiation:delayed'' (dumps retried_envelope) =
          Some (now + compute_backoff ''q:sub:payment_initiation'' 1 (rnd sample_message)) \<and>
        lock_exists r2
          (worker_lock_key (sample_lib h dumps) ''q:sub:payment_initiation'' sample_message))"
proof -
  have "lock_exists (snd (claim_lock (sample_lib h dumps)
          (sample_redis ''q:sub:payment_initiation'' sample_message)
          ''q:sub:payment_initiation''))
     (worker_lock_key (sample_lib h dumps) ''q:sub:payment_initiation'' sample_message)"
    unfolding sample_claim_lock by (simp add: lock_exists_def)
  moreover have "lists (snd (claim_lock (sample_lib h dumps)
          (sample_redis ''q:sub:payment_initiation'' sample_message)
          ''q:sub:payment_initiation'')) ''q:sub:payment_initiation:processing'' =
     [sample_message]"
    unfolding sample_claim_lock by simp
  moreover have "fst (claim_lock (sample_lib h dumps)
          (sample_redis ''q:sub:payment_initiation'' sample_message)
          ''q:sub:payment_initiation'') =
     Locked sample_message sample_envelope 0
       (worker_lock_key (sample_lib h dumps) ''q:sub:payment_initiation'' sample_message)"
    unfolding sample_claim_lock by simp
  ultimately show ?thesis
    using sample_sweep [of h dumps now rnd] by blast
qed

subsection \<open>Properties of the workers of the payment service\<close>

text \<open>
  In the payment service the worker and the sweeper derive the same identifier for an
  enveloped message: its \<open>id\<close> field when present, else the SHA-256 digest of the
  serialized text; and a \<open>max\_attempts\<close> of the message overrides the policy.
\<close>

lemma payment_service_ids_agree:
  assumes "json_loads lib msg = Some (JObj kv)"
    and "map_of kv ''payload'' \<noteq> None" "map_of kv ''action'' \<noteq> None"
  shows "parse_message_id lib sha256 msg = Inr (pay_sweeper_message_id lib sha256 msg)"
  using assms by (simp add: parse_message_id_def pay_sweeper_message_id_def dict_get_def)

lemma payment_service_id_field:
  assumes "json_loads lib msg = Some (JObj kv)"
    and "map_of kv ''payload'' \<noteq> None" "map_of kv ''action'' \<noteq> None"
    and "map_of kv ''id'' = Some (JStr i)" "i \<noteq> []"
  shows "parse_message_id lib sha256 msg = Inr i"
  using assms by (simp add: parse_message_id_def id_or_hash_def py_truthy_def py_str_def)

lemma payment_service_hash_fallback:
  assumes "json_loads lib msg = Some (JObj kv)"
    and "map_of kv ''payload'' \<noteq> None" "map_of kv ''action'' \<noteq> None"
    and "map_of kv ''id'' = None"
  shows "parse_message_id lib sha256 msg = Inr (hexdigest (sha256 (utf8_encode msg)))"
  using assms by (simp add: parse_message_id_def id_or_hash_def hash_message_def)

lemma payment_service_max_attempts_wins:
  "effective_max_try policy_max_retries (Some (JInt n)) = n"
  "effective_max_try policy_max_retries None = policy_max_retries"
  by (simp_all add: effective_max_try_def int_of_json_def)

end
